theory Spec2Isabelle
  imports Complex_Main
begin

section \<open>Go values used by the engine\<close>

subsection \<open>Pointers, slices and panics\<close>

text \<open>
  A pointer is \<open>None\<close> when it is nil and \<open>Some\<close> of the value it points to otherwise; the
  engine never writes through a pointer. Reading a field through a nil pointer is a
  run-time panic, which ends the call without a result: a function that dereferences
  returns \<open>Inl\<close> of the panic, or \<open>Inr\<close> of its result.

  A Go slice is a list or nil: \<open>None\<close> is the nil slice. Ranging over a nil slice runs
  no iteration, and \<open>append\<close> to any slice, nil or not, gives a non-nil one.
\<close>

datatype panic = NilPointerDereference

definition deref :: "'a option \<Rightarrow> panic + 'a" where
  "deref p = (case p of None \<Rightarrow> Inl NilPointerDereference | Some v \<Rightarrow> Inr v)"

type_synonym 'a slice = "'a list option"

definition elems :: "'a slice \<Rightarrow> 'a list" where
  "elems s = (case s of None \<Rightarrow> [] | Some xs \<Rightarrow> xs)"

definition append_slice :: "'a slice \<Rightarrow> 'a \<Rightarrow> 'a slice" where
  "append_slice s x = Some (elems s @ [x])"

subsection \<open>float64\<close>

text \<open>
  A float64 is a finite number, negative zero, an infinity or NaN. A finite number is
  given by its exact value; \<open>Finite 0\<close> is positive zero. The finite numbers of the format
  are the rationals \<open>m * 2 ^ k\<close> with \<open>\<bar>m\<bar> < 2 ^ 53\<close> and \<open>- 1074 \<le> k \<le> 971\<close>. An
  arithmetic operation gives the exact result rounded to the nearest number of the
  format, ties to the even one (\<open>round64\<close>), and follows IEEE 754 on zeros, infinities
  and NaN.
\<close>

datatype float64 = Finite rat | NegZero | PosInf | NegInf | NaN

fun is_nan :: "float64 \<Rightarrow> bool" where
  "is_nan NaN = True"
| "is_nan _ = False"

fun is_inf :: "float64 \<Rightarrow> bool" where
  "is_inf PosInf = True"
| "is_inf NegInf = True"
| "is_inf _ = False"

fun is_zero :: "float64 \<Rightarrow> bool" where
  "is_zero (Finite q) = (q = 0)"
| "is_zero NegZero = True"
| "is_zero _ = False"

text \<open>The sign bit.\<close>

fun is_neg :: "float64 \<Rightarrow> bool" where
  "is_neg (Finite q) = (q < 0)"
| "is_neg NegZero = True"
| "is_neg NegInf = True"
| "is_neg _ = False"

text \<open>The value of a finite number; both zeros have the value 0.\<close>

fun fval :: "float64 \<Rightarrow> rat" where
  "fval (Finite q) = q"
| "fval _ = 0"

definition signed_zero :: "bool \<Rightarrow> float64" where
  "signed_zero neg = (if neg then NegZero else Finite 0)"

definition signed_inf :: "bool \<Rightarrow> float64" where
  "signed_inf neg = (if neg then NegInf else PosInf)"

definition pow2 :: "int \<Rightarrow> rat" where
  "pow2 k = (if 0 \<le> k then 2 ^ nat k else 1 / 2 ^ nat (- k))"

text \<open>The number of binary digits of a positive integer.\<close>

function bit_length :: "int \<Rightarrow> int" where
  "bit_length n = (if n \<le> 0 then 0 else 1 + bit_length (n div 2))"
  by pat_completeness auto
termination
  by (relation "measure nat") auto

declare bit_length.simps [simp del]

text \<open>
  For a positive rational \<open>a / b\<close> in lowest terms, the integer \<open>e\<close> with
  \<open>2 ^ e \<le> a / b < 2 ^ (e + 1)\<close>: with \<open>d\<close> the difference of the bit lengths of \<open>a\<close> and
  \<open>b\<close> it is \<open>d\<close> or \<open>d - 1\<close>.
\<close>

definition ilog2 :: "rat \<Rightarrow> int" where
  "ilog2 q =
     (case quotient_of q of (a, b) \<Rightarrow>
        if pow2 (bit_length a - bit_length b) \<le> q
        then bit_length a - bit_length b
        else bit_length a - bit_length b - 1)"

text \<open>The nearest integer of a rational that is not negative, a tie going to the even one.\<close>

definition round_half_even :: "rat \<Rightarrow> int" where
  "round_half_even m =
     (if m - of_int \<lfloor>m\<rfloor> < 1 / 2 then \<lfloor>m\<rfloor>
      else if 1 / 2 < m - of_int \<lfloor>m\<rfloor> then \<lfloor>m\<rfloor> + 1
      else if even \<lfloor>m\<rfloor> then \<lfloor>m\<rfloor>
      else \<lfloor>m\<rfloor> + 1)"

text \<open>
  The quantum of a number of magnitude \<open>a\<close>: numbers from \<open>2 ^ e\<close> up to \<open>2 ^ (e + 1)\<close> are
  spaced by \<open>2 ^ (e - 52)\<close>, and the subnormal numbers below \<open>2 ^ - 1022\<close> by \<open>2 ^ - 1074\<close>.
\<close>

definition quantum :: "rat \<Rightarrow> rat" where
  "quantum a = pow2 (max (ilog2 a) (- 1022) - 52)"

text \<open>
  Rounding to nearest, ties to even. A magnitude that rounds to \<open>2 ^ 1024\<close> (the
  constant \<open>overflow_threshold\<close>, written out) or more overflows to an infinity; one
  that rounds to zero keeps its sign.
\<close>

definition round_magnitude :: "rat \<Rightarrow> rat" where
  "round_magnitude a = of_int (round_half_even (a / quantum a)) * quantum a"

definition overflow_threshold :: rat where
  "overflow_threshold = 179769313486231590772930519078902473361797697894230657273430081157732675805500963132708477322407536021120113879871393357658789768814416622492847430639474124377767893424865485276302219601246094119453082952085005768838150682342462881473913110540827237163350510684586298239947245938479716304835356329624224137216"

definition round64 :: "rat \<Rightarrow> float64" where
  "round64 q =
     (if q = 0 then Finite 0
      else if overflow_threshold \<le> round_magnitude \<bar>q\<bar> then signed_inf (q < 0)
      else if round_magnitude \<bar>q\<bar> = 0 then signed_zero (q < 0)
      else Finite (if q < 0 then - round_magnitude \<bar>q\<bar> else round_magnitude \<bar>q\<bar>))"

text \<open>
  \<open>x - y\<close>. The difference of equal infinities is NaN. An exact difference of zero is
  positive zero, but for \<open>-0 - +0\<close>.
\<close>

definition fsub :: "float64 \<Rightarrow> float64 \<Rightarrow> float64" where
  "fsub x y =
     (if is_nan x \<or> is_nan y then NaN
      else if is_inf x then (if x = y then NaN else x)
      else if is_inf y then signed_inf (\<not> is_neg y)
      else if fval x - fval y = 0 then signed_zero (x = NegZero \<and> y \<noteq> NegZero)
      else round64 (fval x - fval y))"

text \<open>\<open>math.Abs\<close> clears the sign bit.\<close>

fun fabs :: "float64 \<Rightarrow> float64" where
  "fabs (Finite q) = Finite \<bar>q\<bar>"
| "fabs NegZero = Finite 0"
| "fabs PosInf = PosInf"
| "fabs NegInf = PosInf"
| "fabs NaN = NaN"

text \<open>
  \<open>x / y\<close>. There is no panic on a zero divisor (only integer division by zero panics in
  Go): a nonzero number over a zero is an infinity, with the sign bits combined, and
  \<open>0 / 0\<close> is NaN.
\<close>

definition fdiv :: "float64 \<Rightarrow> float64 \<Rightarrow> float64" where
  "fdiv x y =
     (if is_nan x \<or> is_nan y then NaN
      else if is_inf x then (if is_inf y then NaN else signed_inf (is_neg x \<noteq> is_neg y))
      else if is_inf y then signed_zero (is_neg x \<noteq> is_neg y)
      else if is_zero y then (if is_zero x then NaN else signed_inf (is_neg x \<noteq> is_neg y))
      else if is_zero x then signed_zero (is_neg x \<noteq> is_neg y)
      else round64 (fval x / fval y))"

text \<open>\<open>x * y\<close>. Zero times an infinity is NaN.\<close>

definition fmul :: "float64 \<Rightarrow> float64 \<Rightarrow> float64" where
  "fmul x y =
     (if is_nan x \<or> is_nan y then NaN
      else if is_inf x \<or> is_inf y
      then (if is_zero x \<or> is_zero y then NaN else signed_inf (is_neg x \<noteq> is_neg y))
      else if is_zero x \<or> is_zero y then signed_zero (is_neg x \<noteq> is_neg y)
      else round64 (fval x * fval y))"

text \<open>
  The comparisons. NaN compares false with everything, itself included; the two zeros
  are equal; the infinities lie below and above the finite numbers.
\<close>

fun fclass :: "float64 \<Rightarrow> int" where
  "fclass NegInf = - 1"
| "fclass PosInf = 1"
| "fclass _ = 0"

definition feq :: "float64 \<Rightarrow> float64 \<Rightarrow> bool" where
  "feq x y = (\<not> is_nan x \<and> \<not> is_nan y \<and> fclass x = fclass y \<and> fval x = fval y)"

definition flt :: "float64 \<Rightarrow> float64 \<Rightarrow> bool" where
  "flt x y =
     (\<not> is_nan x \<and> \<not> is_nan y
      \<and> (fclass x < fclass y \<or> (fclass x = fclass y \<and> fval x < fval y)))"

definition fle :: "float64 \<Rightarrow> float64 \<Rightarrow> bool" where
  "fle x y = (flt x y \<or> feq x y)"

definition fgt :: "float64 \<Rightarrow> float64 \<Rightarrow> bool" where
  "fgt x y = flt y x"

text \<open>\<open>math.MaxFloat64\<close> is \<open>(2 ^ 53 - 1) * 2 ^ 971\<close>, written out.\<close>

definition MaxFloat64 :: float64 where
  "MaxFloat64 = Finite 179769313486231570814527423731704356798070567525844996598917476803157260780028538760589558632766878171540458953514382464234321326889464182768467546703537516986049910576551282076245490090389328944075868508455133942304583236903222948165808559332123348274797826204144723168738177180919299881250404026184124858368"

subsection \<open>time.Time and time.Duration\<close>

text \<open>
  A \<open>time.Time\<close> is modelled as the instant it denotes, in nanoseconds since the Unix
  epoch (an unbounded integer: the range of \<open>time.Time\<close> is far larger than that of
  \<open>int64\<close> nanoseconds). A \<open>time.Duration\<close> is an \<open>int64\<close> count of nanoseconds,
  modelled as an \<open>int\<close> with the saturation of \<open>Time.Sub\<close> and the wrap-around of
  negation written out.
\<close>

type_synonym Time = int
type_synonym Duration = int

definition MaxInt64 :: int where
  "MaxInt64 = 9223372036854775807"

definition MinInt64 :: int where
  "MinInt64 = - 9223372036854775808"

text \<open>\<open>t.Sub(u)\<close>: the difference, saturated to the range of a Duration.\<close>

definition Sub :: "Time \<Rightarrow> Time \<Rightarrow> Duration" where
  "Sub t u =
     (if t - u > MaxInt64 then MaxInt64
      else if t - u < MinInt64 then MinInt64
      else t - u)"

text \<open>Unary minus on an int64: the minimum value wraps to itself.\<close>

definition neg_duration :: "Duration \<Rightarrow> Duration" where
  "neg_duration d = (if d = MinInt64 then MinInt64 else - d)"

definition Before :: "Time \<Rightarrow> Time \<Rightarrow> bool" where
  "Before t u = (t < u)"

subsection \<open>map[string]bool\<close>

text \<open>Reading a key that is absent from a Go map gives the zero value, \<open>false\<close>.\<close>

definition lookup_bool :: "(string \<rightharpoonup> bool) \<Rightarrow> string \<Rightarrow> bool" where
  "lookup_bool m k = (case m k of None \<Rightarrow> False | Some v \<Rightarrow> v)"

section \<open>Data model (internal/domain/model)\<close>

text \<open>
  Identifiers, bank accounts and correspondence identifiers are Go strings. A
  \<open>*string\<close> is a \<open>string option\<close>, \<open>None\<close> for the nil pointer; the engine compares
  and copies these pointers' strings and never fails on a nil one.
\<close>

type_synonym ConciliationStatus = string
type_synonym ConciliationStrategy = string

definition StatusSuccessful :: ConciliationStatus where
  "StatusSuccessful = ''conciliado_com_sucesso''"

definition StatusDifferentValue :: ConciliationStatus where
  "StatusDifferentValue = ''valor_diferente''"

definition StatusNotReconciled :: ConciliationStatus where
  "StatusNotReconciled = ''nao_conciliado''"

definition StrategyReferenceID :: ConciliationStrategy where
  "StrategyReferenceID = ''reference_id''"

definition StrategyAccountAmountDate :: ConciliationStrategy where
  "StrategyAccountAmountDate = ''conta_valor_data''"

record Billet =
  ID :: string
  BankAccount :: string
  Amount :: float64
  IssuanceDate :: Time
  ReferenceID :: "string option"
  CreatedAt :: Time
  UpdatedAt :: Time

record Payment =
  ID :: string
  BankAccount :: string
  Amount :: float64
  PaymentDate :: Time
  ReferenceID :: "string option"
  CreatedAt :: Time
  UpdatedAt :: Time

record ReconciledBillet =
  BilletID :: string
  BankAccount :: string
  TransactionID :: string
  ConciliationStatus :: ConciliationStatus
  ConciliationStrategy :: ConciliationStrategy
  ReferenceID :: "string option"
  AmountDiff :: float64

record ReconciliationResult =
  ReconciledBillets :: "ReconciledBillet slice"
  NonReconciledBillets :: "Billet slice"

text \<open>The constructors of the model package; \<open>now\<close> is the reading of \<open>time.Now()\<close>.\<close>

definition NewBillet ::
  "Time \<Rightarrow> string \<Rightarrow> string \<Rightarrow> float64 \<Rightarrow> Time \<Rightarrow> string option \<Rightarrow> Billet" where
  "NewBillet now id' bankAccount amount issuanceDate referenceID =
     \<lparr>Billet.ID = id', Billet.BankAccount = bankAccount, Billet.Amount = amount,
      IssuanceDate = issuanceDate, Billet.ReferenceID = referenceID,
      Billet.CreatedAt = now, Billet.UpdatedAt = now\<rparr>"

definition NewPayment ::
  "Time \<Rightarrow> string \<Rightarrow> string \<Rightarrow> float64 \<Rightarrow> Time \<Rightarrow> string option \<Rightarrow> Payment" where
  "NewPayment now id' bankAccount amount paymentDate referenceID =
     \<lparr>Payment.ID = id', Payment.BankAccount = bankAccount, Payment.Amount = amount,
      PaymentDate = paymentDate, Payment.ReferenceID = referenceID,
      Payment.CreatedAt = now, Payment.UpdatedAt = now\<rparr>"

section \<open>The reconciliation service (internal/domain/service)\<close>

definition TolerancePercentage :: float64 where
  "TolerancePercentage = Finite 5"

text \<open>
  The tracking maps and the result slice that \<open>ReconcileBilletsWithPayments\<close> creates and
  hands to both strategies, which mutate them in place; here the state is passed and
  returned.
\<close>

record run_state =
  reconciledBilletsMap :: "string \<rightharpoonup> bool"
  usedPaymentsMap :: "string \<rightharpoonup> bool"
  reconciledBillets :: "ReconciledBillet slice"

text \<open>
  The two expressions that both strategies compute for a pair:
  \<open>amountDiff := math.Abs(payment.Amount - billet.Amount)\<close> and
  \<open>amountDiffPercentage := (amountDiff / billet.Amount) * 100\<close>.
\<close>

definition amountDiff :: "Payment \<Rightarrow> Billet \<Rightarrow> float64" where
  "amountDiff payment billet = fabs (fsub (Payment.Amount payment) (Billet.Amount billet))"

definition amountDiffPercentage :: "Payment \<Rightarrow> Billet \<Rightarrow> float64" where
  "amountDiffPercentage payment billet =
     fmul (fdiv (amountDiff payment billet) (Billet.Amount billet)) (Finite 100)"

subsection \<open>First strategy: reconcileByReferenceID\<close>

text \<open>
  The first loop fills \<open>paymentsByReferenceID\<close>: each payment with a non-nil, non-empty
  reference that is not marked used is stored under its reference, replacing what was
  stored there. The loop reads a field of every element of the slice.
\<close>

definition index_payment ::
  "(string \<rightharpoonup> bool) \<Rightarrow> Payment \<Rightarrow> (string \<rightharpoonup> Payment) \<Rightarrow> (string \<rightharpoonup> Payment)" where
  "index_payment used payment m =
     (case Payment.ReferenceID payment of
        None \<Rightarrow> m
      | Some r \<Rightarrow>
          if r \<noteq> [] \<and> \<not> lookup_bool used (Payment.ID payment)
          then m(r \<mapsto> payment) else m)"

fun paymentsByReferenceID ::
  "(string \<rightharpoonup> bool) \<Rightarrow> Payment option list \<Rightarrow> (string \<rightharpoonup> Payment)
   \<Rightarrow> panic + (string \<rightharpoonup> Payment)" where
  "paymentsByReferenceID used [] m = Inr m"
| "paymentsByReferenceID used (p # payments) m =
     (case deref p of
        Inl e \<Rightarrow> Inl e
      | Inr payment \<Rightarrow> paymentsByReferenceID used payments (index_payment used payment m))"

text \<open>The entry that is appended for a match, and the marking of both sides as used.\<close>

definition reference_result :: "Billet \<Rightarrow> Payment \<Rightarrow> ConciliationStatus \<Rightarrow> ReconciledBillet" where
  "reference_result billet payment status =
     \<lparr>BilletID = Billet.ID billet,
      ReconciledBillet.BankAccount = Billet.BankAccount billet,
      TransactionID = Payment.ID payment,
      ConciliationStatus = status,
      ConciliationStrategy = StrategyReferenceID,
      ReconciledBillet.ReferenceID = Billet.ReferenceID billet,
      AmountDiff = amountDiff payment billet\<rparr>"

definition reference_match :: "Billet \<Rightarrow> Payment \<Rightarrow> ConciliationStatus \<Rightarrow> run_state \<Rightarrow> run_state" where
  "reference_match billet payment status s =
     \<lparr>reconciledBilletsMap = (reconciledBilletsMap s)(Billet.ID billet \<mapsto> True),
      usedPaymentsMap = (usedPaymentsMap s)(Payment.ID payment \<mapsto> True),
      reconciledBillets =
        append_slice (reconciledBillets s) (reference_result billet payment status)\<rparr>"

text \<open>
  The body of the loop over the billets, after the billet pointer is read; every
  \<open>continue\<close> returns the state as it is. The pointers stored in the lookup are not nil.
\<close>

definition reference_step :: "(string \<rightharpoonup> Payment) \<Rightarrow> Billet \<Rightarrow> run_state \<Rightarrow> run_state" where
  "reference_step idx billet s =
     (if lookup_bool (reconciledBilletsMap s) (Billet.ID billet) then s
      else case Billet.ReferenceID billet of
        None \<Rightarrow> s
      | Some r \<Rightarrow>
          if r = [] then s
          else (case idx r of
            None \<Rightarrow> s
          | Some payment \<Rightarrow>
              if feq (amountDiff payment billet) (Finite 0)
              then reference_match billet payment StatusSuccessful s
              else if fle (amountDiffPercentage payment billet) TolerancePercentage
              then reference_match billet payment StatusDifferentValue s
              else s))"

fun reference_loop ::
  "(string \<rightharpoonup> Payment) \<Rightarrow> Billet option list \<Rightarrow> run_state \<Rightarrow> panic + run_state" where
  "reference_loop idx [] s = Inr s"
| "reference_loop idx (b # billets) s =
     (case deref b of
        Inl e \<Rightarrow> Inl e
      | Inr billet \<Rightarrow> reference_loop idx billets (reference_step idx billet s))"

definition reconcileByReferenceID ::
  "Billet option list \<Rightarrow> Payment option list \<Rightarrow> run_state \<Rightarrow> panic + run_state" where
  "reconcileByReferenceID billets payments s =
     (case paymentsByReferenceID (usedPaymentsMap s) payments Map.empty of
        Inl e \<Rightarrow> Inl e
      | Inr idx \<Rightarrow> reference_loop idx billets s)"

subsection \<open>Second strategy: reconcileByAccountValueDate\<close>

record best_state =
  bestBillet :: "Billet option"
  minDateDiff :: Duration
  bestAmountDiff :: float64

definition init_best :: best_state where
  "init_best = \<lparr>bestBillet = None, minDateDiff = MaxInt64, bestAmountDiff = MaxFloat64\<rparr>"

text \<open>\<open>dateDiff := payment.PaymentDate.Sub(billet.IssuanceDate)\<close>, negated when negative.\<close>

definition dateDiff :: "Payment \<Rightarrow> Billet \<Rightarrow> Duration" where
  "dateDiff payment billet =
     (if Sub (PaymentDate payment) (IssuanceDate billet) < 0
      then neg_duration (Sub (PaymentDate payment) (IssuanceDate billet))
      else Sub (PaymentDate payment) (IssuanceDate billet))"

definition isBetter :: "Payment \<Rightarrow> Billet \<Rightarrow> best_state \<Rightarrow> bool" where
  "isBetter payment billet best =
     (case bestBillet best of
        None \<Rightarrow> True
      | Some bb \<Rightarrow>
          if dateDiff payment billet < minDateDiff best then True
          else if dateDiff payment billet = minDateDiff best
                  \<and> flt (amountDiff payment billet) (bestAmountDiff best) then True
          else if dateDiff payment billet = minDateDiff best
                  \<and> feq (amountDiff payment billet) (bestAmountDiff best)
                  \<and> Before (IssuanceDate billet) (IssuanceDate bb) then True
          else False)"

text \<open>The body of the inner loop over the billets, for one payment.\<close>

definition scan_step :: "Payment \<Rightarrow> (string \<rightharpoonup> bool) \<Rightarrow> Billet \<Rightarrow> best_state \<Rightarrow> best_state" where
  "scan_step payment reconciled billet best =
     (if lookup_bool reconciled (Billet.ID billet) then best
      else if Billet.BankAccount billet \<noteq> Payment.BankAccount payment then best
      else if fgt (amountDiffPercentage payment billet) TolerancePercentage then best
      else if isBetter payment billet best
      then \<lparr>bestBillet = Some billet, minDateDiff = dateDiff payment billet,
            bestAmountDiff = amountDiff payment billet\<rparr>
      else best)"

fun scan_billets ::
  "Payment \<Rightarrow> (string \<rightharpoonup> bool) \<Rightarrow> Billet option list \<Rightarrow> best_state \<Rightarrow> panic + best_state" where
  "scan_billets payment reconciled [] best = Inr best"
| "scan_billets payment reconciled (b # billets) best =
     (case deref b of
        Inl e \<Rightarrow> Inl e
      | Inr billet \<Rightarrow>
          scan_billets payment reconciled billets (scan_step payment reconciled billet best))"

definition account_result :: "Billet \<Rightarrow> Payment \<Rightarrow> float64 \<Rightarrow> ReconciledBillet" where
  "account_result best payment diff =
     \<lparr>BilletID = Billet.ID best,
      ReconciledBillet.BankAccount = Billet.BankAccount best,
      TransactionID = Payment.ID payment,
      ConciliationStatus =
        (if feq diff (Finite 0) then StatusSuccessful else StatusDifferentValue),
      ConciliationStrategy = StrategyAccountAmountDate,
      ReconciledBillet.ReferenceID = Billet.ReferenceID best,
      AmountDiff = diff\<rparr>"

definition account_match :: "Billet \<Rightarrow> Payment \<Rightarrow> float64 \<Rightarrow> run_state \<Rightarrow> run_state" where
  "account_match best payment diff s =
     \<lparr>reconciledBilletsMap = (reconciledBilletsMap s)(Billet.ID best \<mapsto> True),
      usedPaymentsMap = (usedPaymentsMap s)(Payment.ID payment \<mapsto> True),
      reconciledBillets =
        append_slice (reconciledBillets s) (account_result best payment diff)\<rparr>"

text \<open>
  The body of the outer loop over the payments, after the payment pointer is read. A
  payment that is marked used is passed over before any billet is looked at.
\<close>

definition account_step :: "Billet option list \<Rightarrow> Payment \<Rightarrow> run_state \<Rightarrow> panic + run_state" where
  "account_step billets payment s =
     (if lookup_bool (usedPaymentsMap s) (Payment.ID payment) then Inr s
      else case scan_billets payment (reconciledBilletsMap s) billets init_best of
        Inl e \<Rightarrow> Inl e
      | Inr best \<Rightarrow>
          (case bestBillet best of
             None \<Rightarrow> Inr s
           | Some bb \<Rightarrow> Inr (account_match bb payment (bestAmountDiff best) s)))"

fun reconcileByAccountValueDate ::
  "Billet option list \<Rightarrow> Payment option list \<Rightarrow> run_state \<Rightarrow> panic + run_state" where
  "reconcileByAccountValueDate billets [] s = Inr s"
| "reconcileByAccountValueDate billets (p # payments) s =
     (case deref p of
        Inl e \<Rightarrow> Inl e
      | Inr payment \<Rightarrow>
          (case account_step billets payment s of
             Inl e \<Rightarrow> Inl e
           | Inr s' \<Rightarrow> reconcileByAccountValueDate billets payments s'))"

subsection \<open>ReconcileBilletsWithPayments\<close>

text \<open>The last loop: the billets that are not marked reconciled, in input order.\<close>

fun add_non_reconciled ::
  "(string \<rightharpoonup> bool) \<Rightarrow> Billet option list \<Rightarrow> Billet slice \<Rightarrow> panic + Billet slice" where
  "add_non_reconciled reconciled [] out = Inr out"
| "add_non_reconciled reconciled (b # billets) out =
     (case deref b of
        Inl e \<Rightarrow> Inl e
      | Inr billet \<Rightarrow>
          add_non_reconciled reconciled billets
            (if \<not> lookup_bool reconciled (Billet.ID billet)
             then append_slice out billet else out))"

definition init_state :: run_state where
  "init_state =
     \<lparr>reconciledBilletsMap = Map.empty, usedPaymentsMap = Map.empty,
      reconciledBillets = Some []\<rparr>"

datatype error = Error string

text \<open>
  The function takes two slices of pointers and returns a pointer to the result and an
  error, or panics: in \<open>Inr (Some r, None)\<close> the pointer is not nil and the error is nil.
  The context argument is never read and is left out.
\<close>

definition ReconcileBilletsWithPayments ::
  "Billet option slice \<Rightarrow> Payment option slice
   \<Rightarrow> panic + (ReconciliationResult option \<times> error option)" where
  "ReconcileBilletsWithPayments billets payments =
     (case reconcileByReferenceID (elems billets) (elems payments) init_state of
        Inl e \<Rightarrow> Inl e
      | Inr s1 \<Rightarrow>
          (case reconcileByAccountValueDate (elems billets) (elems payments) s1 of
             Inl e \<Rightarrow> Inl e
           | Inr s2 \<Rightarrow>
               (case add_non_reconciled (reconciledBilletsMap s2) (elems billets) (Some []) of
                  Inl e \<Rightarrow> Inl e
                | Inr non \<Rightarrow>
                    Inr (Some \<lparr>ReconciledBillets = reconciledBillets s2,
                               NonReconciledBillets = non\<rparr>,
                         None))))"

section \<open>The reference data set (README, "Dados de Exemplo")\<close>

text \<open>A calendar day at midnight UTC, given as its number of days since 1970-01-01.\<close>

definition day :: "int \<Rightarrow> Time" where
  "day n = n * 86400000000000"

text \<open>A non-nil slice of non-nil pointers to the given records.\<close>

definition pointers :: "'a list \<Rightarrow> 'a option slice" where
  "pointers xs = Some (map Some xs)"

text \<open>2024-03-01 is day 19783; the billets are issued on 2024-03-01 .. 2024-03-04.\<close>

definition B001 :: Billet where
  "B001 = NewBillet 0 ''B001'' ''C123'' (Finite 100) (day 19783) (Some ''REF001'')"

definition B002 :: Billet where
  "B002 = NewBillet 0 ''B002'' ''C345'' (Finite 200) (day 19784) None"

definition B003 :: Billet where
  "B003 = NewBillet 0 ''B003'' ''C678'' (Finite 300) (day 19785) (Some ''REF003'')"

definition B004 :: Billet where
  "B004 = NewBillet 0 ''B004'' ''C910'' (Finite 150) (day 19786) (Some ''REF004'')"

text \<open>The payments are dated 2024-03-05, 2024-03-04, 2024-03-10 and 2024-03-06.\<close>

definition T100 :: Payment where
  "T100 = NewPayment 0 ''T100'' ''C123'' (Finite 100) (day 19787) (Some ''REF001'')"

definition T101 :: Payment where
  "T101 = NewPayment 0 ''T101'' ''C345'' (Finite 195) (day 19786) None"

definition T102 :: Payment where
  "T102 = NewPayment 0 ''T102'' ''C678'' (Finite 300) (day 19792) (Some ''REF999'')"

definition T103 :: Payment where
  "T103 = NewPayment 0 ''T103'' ''C999'' (Finite 150) (day 19788) (Some ''REF004'')"

definition reference_billets :: "Billet list" where
  "reference_billets = [B001, B002, B003, B004]"

definition reference_payments :: "Payment list" where
  "reference_payments = [T100, T101, T102, T103]"


section \<open>Runs without nil elements\<close>

text \<open>The values that the non-nil pointers of a list, and of a slice, point to, in order.\<close>

fun targets :: "'a option list \<Rightarrow> 'a list" where
  "targets [] = []"
| "targets (None # xs) = targets xs"
| "targets (Some x # xs) = x # targets xs"

definition pointees :: "'a option slice \<Rightarrow> 'a list" where
  "pointees s = targets (elems s)"

text \<open>
  The loops of the engine over the pointed-to records, when no pointer is nil: each loop
  applies its body to the elements in order.
\<close>

definition payments_index ::
  "(string \<rightharpoonup> bool) \<Rightarrow> Payment list \<Rightarrow> (string \<rightharpoonup> Payment)" where
  "payments_index used payments = fold (index_payment used) payments Map.empty"

definition reference_steps :: "(string \<rightharpoonup> Payment) \<Rightarrow> Billet list \<Rightarrow> run_state \<Rightarrow> run_state" where
  "reference_steps idx billets s = fold (reference_step idx) billets s"

definition scan_steps :: "Payment \<Rightarrow> (string \<rightharpoonup> bool) \<Rightarrow> Billet list \<Rightarrow> best_state" where
  "scan_steps payment reconciled billets =
     fold (scan_step payment reconciled) billets init_best"

definition account_apply :: "Billet list \<Rightarrow> Payment \<Rightarrow> run_state \<Rightarrow> run_state" where
  "account_apply billets payment s =
     (if lookup_bool (usedPaymentsMap s) (Payment.ID payment) then s
      else case bestBillet (scan_steps payment (reconciledBilletsMap s) billets) of
        None \<Rightarrow> s
      | Some bb \<Rightarrow>
          account_match bb payment
            (bestAmountDiff (scan_steps payment (reconciledBilletsMap s) billets)) s)"

definition account_steps :: "Billet list \<Rightarrow> Payment list \<Rightarrow> run_state \<Rightarrow> run_state" where
  "account_steps billets payments s = fold (account_apply billets) payments s"

text \<open>The state after both strategies, and the result built from it.\<close>

definition final_state :: "Billet list \<Rightarrow> Payment list \<Rightarrow> run_state" where
  "final_state billets payments =
     account_steps billets payments
       (reference_steps (payments_index Map.empty payments) billets init_state)"

definition report :: "Billet list \<Rightarrow> Payment list \<Rightarrow> ReconciliationResult" where
  "report billets payments =
     \<lparr>ReconciledBillets = reconciledBillets (final_state billets payments),
      NonReconciledBillets =
        Some (filter (\<lambda>b. \<not> lookup_bool (reconciledBilletsMap (final_state billets payments))
                              (Billet.ID b)) billets)\<rparr>"


section \<open>Notions used in the statements\<close>

text \<open>What a reader of the report sees of an entry: who is paired, how, and the difference.\<close>

definition summary ::
  "ReconciledBillet
   \<Rightarrow> string \<times> string \<times> ConciliationStatus \<times> ConciliationStrategy \<times> float64" where
  "summary m =
     (BilletID m, TransactionID m, ConciliationStatus m, ConciliationStrategy m, AmountDiff m)"

text \<open>
  A billet that the inner loop of the second strategy does not skip for a payment: it is
  not marked reconciled, it has the payment's bank account, and the percentage is not
  above the tolerance.
\<close>

definition candidate :: "Payment \<Rightarrow> (string \<rightharpoonup> bool) \<Rightarrow> Billet \<Rightarrow> bool" where
  "candidate payment reconciled billet =
     (\<not> lookup_bool reconciled (Billet.ID billet)
      \<and> Billet.BankAccount billet = Payment.BankAccount payment
      \<and> \<not> fgt (amountDiffPercentage payment billet) TolerancePercentage)"

text \<open>
  The date distance of the specification, \<open>|payment.date - billet.issuance_date|\<close>, in
  nanoseconds.
\<close>

definition date_distance :: "Payment \<Rightarrow> Billet \<Rightarrow> int" where
  "date_distance payment billet = \<bar>PaymentDate payment - IssuanceDate billet\<bar>"

text \<open>
  The priority of the specification, for one payment: billet \<open>c\<close> beats billet \<open>b\<close> when its
  date distance is smaller, or the date distances are equal and its amount difference is
  smaller, or both are equal and it was issued earlier.
\<close>

definition beats :: "Payment \<Rightarrow> Billet \<Rightarrow> Billet \<Rightarrow> bool" where
  "beats payment c b =
     (date_distance payment c < date_distance payment b
      \<or> (date_distance payment c = date_distance payment b
          \<and> flt (amountDiff payment c) (amountDiff payment b))
      \<or> (date_distance payment c = date_distance payment b
          \<and> feq (amountDiff payment c) (amountDiff payment b)
          \<and> IssuanceDate c < IssuanceDate b))"


text \<open>The three variables of the inner loop describe the billet that is held as the best.\<close>

definition tracks :: "Payment \<Rightarrow> best_state \<Rightarrow> bool" where
  "tracks payment st =
     (case bestBillet st of
        None \<Rightarrow> True
      | Some b \<Rightarrow> minDateDiff st = dateDiff payment b \<and> bestAmountDiff st = amountDiff payment b)"

text \<open>The last payment, in input order, that carries a given reference.\<close>

definition last_with_reference :: "Payment list \<Rightarrow> string \<Rightarrow> Payment option" where
  "last_with_reference payments r =
     List.find (\<lambda>q. Payment.ReferenceID q = Some r) (rev payments)"

text \<open>
  The specification's reading of the lookup: the first payment, in input order, that
  carries the reference.
\<close>

definition first_with_reference :: "Payment list \<Rightarrow> string \<Rightarrow> Payment option" where
  "first_with_reference payments r =
     List.find (\<lambda>q. Payment.ReferenceID q = Some r) payments"

text \<open>
  The two kinds of entry of a report. An entry of the first strategy pairs a billet that
  has a non-empty reference with the last payment carrying that reference, the amounts
  being equal or within the tolerance. An entry of the second strategy pairs a billet and
  a payment of one bank account, the percentage not being above the tolerance.
\<close>

definition reference_entry :: "Billet list \<Rightarrow> Payment list \<Rightarrow> ReconciledBillet \<Rightarrow> bool" where
  "reference_entry billets payments m =
     (\<exists>b\<in>set billets. \<exists>r p.
        Billet.ReferenceID b = Some r \<and> r \<noteq> [] \<and> last_with_reference payments r = Some p
        \<and> (feq (amountDiff p b) (Finite 0)
            \<or> fle (amountDiffPercentage p b) TolerancePercentage)
        \<and> m = reference_result b p
                 (if feq (amountDiff p b) (Finite 0) then StatusSuccessful
                  else StatusDifferentValue))"

definition account_entry :: "Billet list \<Rightarrow> Payment list \<Rightarrow> ReconciledBillet \<Rightarrow> bool" where
  "account_entry billets payments m =
     (\<exists>b\<in>set billets. \<exists>p\<in>set payments.
        Billet.BankAccount b = Payment.BankAccount p
        \<and> \<not> fgt (amountDiffPercentage p b) TolerancePercentage
        \<and> m = account_result b p (amountDiff p b))"

text \<open>
  An entry pairs a billet and a payment of the same bank account: the input holds a billet
  and a payment with the identifiers of the entry that have one bank account.
\<close>

definition same_account_pair :: "Billet list \<Rightarrow> Payment list \<Rightarrow> ReconciledBillet \<Rightarrow> bool" where
  "same_account_pair billets payments m =
     (\<exists>b\<in>set billets. \<exists>p\<in>set payments.
        BilletID m = Billet.ID b \<and> TransactionID m = Payment.ID p
        \<and> Billet.BankAccount b = Payment.BankAccount p)"

text \<open>
  The bookkeeping of the billets: the entries name pairwise different billets, all of them
  input billets, and \<open>reconciledBilletsMap\<close> marks exactly the billets that the entries name.
\<close>

definition billets_tracked :: "Billet list \<Rightarrow> run_state \<Rightarrow> bool" where
  "billets_tracked billets s =
     (distinct (map BilletID (elems (reconciledBillets s)))
      \<and> (\<forall>k. lookup_bool (reconciledBilletsMap s) k =
               (k \<in> BilletID ` set (elems (reconciledBillets s))))
      \<and> BilletID ` set (elems (reconciledBillets s)) \<subseteq> Billet.ID ` set billets)"


section \<open>More records over the reference data, for the examples\<close>

text \<open>
  A second billet that carries the reference of \<open>B001\<close>, a second payment that carries
  the reference of \<open>T100\<close>, and a billet with the identifier of \<open>B001\<close> and nothing else
  in common with it.
\<close>

definition B005 :: Billet where
  "B005 = NewBillet 0 ''B005'' ''C123'' (Finite 100) (day 19784) (Some ''REF001'')"

definition T104 :: Payment where
  "T104 = NewPayment 0 ''T104'' ''C123'' (Finite 100) (day 19788) (Some ''REF001'')"

definition B009 :: Billet where
  "B009 = NewBillet 0 ''B001'' ''C777'' (Finite 50) (day 19790) None"

text \<open>
  Billets of amount zero in the account of \<open>T100\<close>: \<open>B000\<close> of amount \<open>+0\<close> and \<open>B010\<close> of
  amount \<open>-0\<close> carry the reference of \<open>T100\<close>, and \<open>B011\<close> of amount \<open>-0\<close> carries none.
\<close>

definition B000 :: Billet where
  "B000 = NewBillet 0 ''B000'' ''C123'' (Finite 0) (day 19783) (Some ''REF001'')"

definition B010 :: Billet where
  "B010 = NewBillet 0 ''B010'' ''C123'' NegZero (day 19783) (Some ''REF001'')"

definition B011 :: Billet where
  "B011 = NewBillet 0 ''B011'' ''C123'' NegZero (day 19783) None"

text \<open>
  Two more billets of the account of \<open>T101\<close> (paid on 2024-03-04) with the amount of
  \<open>B002\<close>: \<open>B006\<close> is issued two days after the payment, as \<open>B002\<close> is issued two days
  before it, and \<open>B007\<close> is issued on the day of \<open>B002\<close>.
\<close>

definition B006 :: Billet where
  "B006 = NewBillet 0 ''B006'' ''C345'' (Finite 200) (day 19788) None"

definition B007 :: Billet where
  "B007 = NewBillet 0 ''B007'' ''C345'' (Finite 200) (day 19784) None"

text \<open>
  Two payments that carry the reference of \<open>B001\<close> (amount 100): one pays 105, the other
  106.
\<close>

definition T105 :: Payment where
  "T105 = NewPayment 0 ''T105'' ''C123'' (Finite 105) (day 19787) (Some ''REF001'')"

definition T106 :: Payment where
  "T106 = NewPayment 0 ''T106'' ''C123'' (Finite 106) (day 19787) (Some ''REF001'')"

text \<open>
  A payment of 200 into the account of \<open>B002\<close> dated 1700-01-01 (day -98615), more than
  292 years before \<open>B002\<close> is issued, and a billet of 200 of this account issued on the
  day of the payment.
\<close>

definition T107 :: Payment where
  "T107 = NewPayment 0 ''T107'' ''C345'' (Finite 200) (day (- 98615)) None"

definition B008 :: Billet where
  "B008 = NewBillet 0 ''B008'' ''C345'' (Finite 200) (day (- 98615)) None"


section \<open>Basic facts about the values\<close>

lemma elems_simps [simp]: "elems None = []" "elems (Some xs) = xs"
  by (simp_all add: elems_def)

lemma elems_append_slice [simp]: "elems (append_slice s x) = elems s @ [x]"
  by (simp add: append_slice_def)

lemma append_slice_not_nil [simp]: "append_slice s x \<noteq> None"
  by (simp add: append_slice_def)

lemma deref_simps [simp]: "deref None = Inl NilPointerDereference" "deref (Some v) = Inr v"
  by (simp_all add: deref_def)

lemma panic_only [simp]: "(e :: panic) = NilPointerDereference"
  by (cases e) simp

lemma targets_map_Some [simp]: "targets (map Some xs) = xs"
  by (induction xs) simp_all

lemma map_Some_targets: "None \<notin> set xs \<Longrightarrow> map Some (targets xs) = xs"
proof (induction xs)
  case Nil
  show ?case by simp
next
  case (Cons x xs)
  then show ?case by (cases x) simp_all
qed

lemma pointees_pointers [simp]: "pointees (pointers xs) = xs"
  by (simp add: pointees_def pointers_def)

lemma elems_pointers [simp]: "elems (pointers xs) = map Some xs"
  by (simp add: pointers_def)

lemma lookup_bool_empty [simp]: "lookup_bool Map.empty k = False"
  by (simp add: lookup_bool_def)

lemma lookup_bool_upd [simp]:
  "lookup_bool (m(k \<mapsto> True)) k' = (k' = k \<or> lookup_bool m k')"
  by (simp add: lookup_bool_def)

lemma reference_match_sel [simp]:
  "reconciledBilletsMap (reference_match b p st s) = (reconciledBilletsMap s)(Billet.ID b \<mapsto> True)"
  "usedPaymentsMap (reference_match b p st s) = (usedPaymentsMap s)(Payment.ID p \<mapsto> True)"
  "reconciledBillets (reference_match b p st s) =
     append_slice (reconciledBillets s) (reference_result b p st)"
  by (simp_all add: reference_match_def)

lemma account_match_sel [simp]:
  "reconciledBilletsMap (account_match b p d s) = (reconciledBilletsMap s)(Billet.ID b \<mapsto> True)"
  "usedPaymentsMap (account_match b p d s) = (usedPaymentsMap s)(Payment.ID p \<mapsto> True)"
  "reconciledBillets (account_match b p d s) =
     append_slice (reconciledBillets s) (account_result b p d)"
  by (simp_all add: account_match_def)

lemma reference_result_sel [simp]:
  "BilletID (reference_result b p st) = Billet.ID b"
  "ReconciledBillet.BankAccount (reference_result b p st) = Billet.BankAccount b"
  "TransactionID (reference_result b p st) = Payment.ID p"
  "ConciliationStatus (reference_result b p st) = st"
  "ConciliationStrategy (reference_result b p st) = StrategyReferenceID"
  "ReconciledBillet.ReferenceID (reference_result b p st) = Billet.ReferenceID b"
  "AmountDiff (reference_result b p st) = amountDiff p b"
  by (simp_all add: reference_result_def)

lemma account_result_sel [simp]:
  "BilletID (account_result b p d) = Billet.ID b"
  "ReconciledBillet.BankAccount (account_result b p d) = Billet.BankAccount b"
  "TransactionID (account_result b p d) = Payment.ID p"
  "ConciliationStatus (account_result b p d) =
     (if feq d (Finite 0) then StatusSuccessful else StatusDifferentValue)"
  "ConciliationStrategy (account_result b p d) = StrategyAccountAmountDate"
  "ReconciledBillet.ReferenceID (account_result b p d) = Billet.ReferenceID b"
  "AmountDiff (account_result b p d) = d"
  by (simp_all add: account_result_def)

lemma strategies_differ: "StrategyReferenceID \<noteq> StrategyAccountAmountDate"
  by (simp add: StrategyReferenceID_def StrategyAccountAmountDate_def)

lemma overflow_threshold_power: "overflow_threshold = 2 ^ 1024"
  by (simp add: overflow_threshold_def)

lemma MaxFloat64_power: "MaxFloat64 = Finite ((2 ^ 53 - 1) * 2 ^ 971)"
  by (simp add: MaxFloat64_def)

lemmas data_defs =
  B001_def B002_def B003_def B004_def T100_def T101_def T102_def T103_def
  NewBillet_def NewPayment_def day_def

lemmas more_data_defs =
  B000_def B005_def B006_def B007_def B008_def B009_def B010_def B011_def
  T104_def T105_def T106_def T107_def

lemmas result_defs =
  reference_result_def account_result_def StatusSuccessful_def
  StatusDifferentValue_def StrategyReferenceID_def StrategyAccountAmountDate_def

section \<open>The loops on slices without nil elements, and on slices with one\<close>

lemma paymentsByReferenceID_total:
  "paymentsByReferenceID used (map Some ps) m = Inr (fold (index_payment used) ps m)"
  by (induction ps arbitrary: m) simp_all

lemma paymentsByReferenceID_panic:
  "None \<in> set ps \<Longrightarrow> paymentsByReferenceID used ps m = Inl NilPointerDereference"
proof (induction ps arbitrary: m)
  case Nil
  then show ?case by simp
next
  case (Cons p ps)
  then show ?case by (cases p) auto
qed

lemma reference_loop_total:
  "reference_loop idx (map Some bs) s = Inr (reference_steps idx bs s)"
  unfolding reference_steps_def by (induction bs arbitrary: s) simp_all

lemma reference_loop_panic:
  "None \<in> set bs \<Longrightarrow> reference_loop idx bs s = Inl NilPointerDereference"
proof (induction bs arbitrary: s)
  case Nil
  then show ?case by simp
next
  case (Cons b bs)
  then show ?case by (cases b) auto
qed

lemma scan_billets_fold:
  "scan_billets p rm (map Some bs) best = Inr (fold (scan_step p rm) bs best)"
  by (induction bs arbitrary: best) simp_all

lemma scan_billets_total:
  "scan_billets p rm (map Some bs) init_best = Inr (scan_steps p rm bs)"
  by (simp add: scan_billets_fold scan_steps_def)

lemma account_step_total:
  "account_step (map Some bs) p s = Inr (account_apply bs p s)"
  by (simp add: account_step_def account_apply_def scan_billets_total split: option.splits)

lemma reconcileByAccountValueDate_total:
  "reconcileByAccountValueDate (map Some bs) (map Some ps) s = Inr (account_steps bs ps s)"
  unfolding account_steps_def
  by (induction ps arbitrary: s) (simp_all add: account_step_total)

lemma add_non_reconciled_total:
  "add_non_reconciled rm (map Some bs) (Some out) =
     Inr (Some (out @ filter (\<lambda>b. \<not> lookup_bool rm (Billet.ID b)) bs))"
  by (induction bs arbitrary: out) (simp_all add: append_slice_def)

text \<open>
  What a call returns: it panics when one of the two slices holds a nil pointer, and
  otherwise returns the report over the pointed-to records and a nil error.
\<close>

lemma ReconcileBilletsWithPayments_report:
  assumes "None \<notin> set (elems billets)" and "None \<notin> set (elems payments)"
  shows "ReconcileBilletsWithPayments billets payments =
     Inr (Some (report (pointees billets) (pointees payments)), None)"
proof -
  from assms have b: "elems billets = map Some (pointees billets)"
    and p: "elems payments = map Some (pointees payments)"
    by (simp_all add: pointees_def map_Some_targets)
  show ?thesis
    unfolding ReconcileBilletsWithPayments_def reconcileByReferenceID_def b p
    by (simp add: paymentsByReferenceID_total reference_loop_total
        reconcileByAccountValueDate_total add_non_reconciled_total report_def final_state_def
        payments_index_def init_state_def)
qed

lemma ReconcileBilletsWithPayments_panic:
  assumes "None \<in> set (elems billets) \<or> None \<in> set (elems payments)"
  shows "ReconcileBilletsWithPayments billets payments = Inl NilPointerDereference"
proof (cases "None \<in> set (elems payments)")
  case True
  then show ?thesis
    by (simp add: ReconcileBilletsWithPayments_def reconcileByReferenceID_def
        paymentsByReferenceID_panic)
next
  case False
  with assms have nil: "None \<in> set (elems billets)" by simp
  from False have "elems payments = map Some (pointees payments)"
    by (simp add: pointees_def map_Some_targets)
  with nil show ?thesis
    by (simp add: ReconcileBilletsWithPayments_def reconcileByReferenceID_def
        paymentsByReferenceID_total reference_loop_panic)
qed

lemma ReconcileBilletsWithPayments_returns:
  assumes "ReconcileBilletsWithPayments billets payments = Inr (Some r, err)"
  shows "r = report (pointees billets) (pointees payments)"
    and "None \<notin> set (elems billets)" and "None \<notin> set (elems payments)"
proof -
  show nb: "None \<notin> set (elems billets)" and np: "None \<notin> set (elems payments)"
    using assms ReconcileBilletsWithPayments_panic [of billets payments] by auto
  from ReconcileBilletsWithPayments_report [OF nb np] assms
  show "r = report (pointees billets) (pointees payments)" by simp
qed

lemma run_pointers:
  "ReconcileBilletsWithPayments (pointers bs) (pointers ps) = Inr (Some (report bs ps), None)"
  using ReconcileBilletsWithPayments_report [of "pointers bs" "pointers ps"] by simp

lemma report_sel [simp]:
  "ReconciledBillets (report bs ps) = reconciledBillets (final_state bs ps)"
  "NonReconciledBillets (report bs ps) =
     Some (filter (\<lambda>b. \<not> lookup_bool (reconciledBilletsMap (final_state bs ps)) (Billet.ID b)) bs)"
  by (simp_all add: report_def)

section \<open>Facts about float64 comparisons and special values\<close>

lemma feq_fle: "feq x y \<Longrightarrow> fle x y"
  by (simp add: fle_def)

lemma fgt_not_fle: "fgt x y \<Longrightarrow> \<not> fle x y"
  by (auto simp: fgt_def fle_def flt_def feq_def)

lemma flt_irrefl: "\<not> flt x x"
  by (simp add: flt_def)







lemma flt_not_feq: "flt x y \<Longrightarrow> \<not> feq x y" and flt_asym: "flt x y \<Longrightarrow> \<not> flt y x"
  unfolding flt_def feq_def by auto

lemma is_nan_fabs [simp]: "is_nan (fabs x) = is_nan x"
  by (cases x) simp_all

lemma is_neg_fabs [simp]: "\<not> is_neg (fabs x)"
  by (cases x) simp_all

lemma feq_zero_iff: "feq d (Finite 0) = is_zero d"
  by (cases d) (simp_all add: feq_def)

lemma is_zero_signed_zero [simp]: "is_zero (signed_zero n)" "\<not> is_nan (signed_zero n)"
  "\<not> is_inf (signed_zero n)"
  by (simp_all add: signed_zero_def)

text \<open>The difference of two equal finite amounts is positive zero.\<close>

lemma fabs_fsub_equal:
  assumes "feq x y" and "\<not> is_inf x"
  shows "fabs (fsub x y) = Finite 0"
proof -
  from assms have "\<not> is_nan x" "\<not> is_nan y" "\<not> is_inf y" "fval x - fval y = 0"
    by (cases x; cases y; simp add: feq_def)+
  with assms(2) show ?thesis
    by (simp add: fsub_def signed_zero_def)
qed

text \<open>A zero difference gives a percentage that is a zero or NaN, never above a bound.\<close>

lemma zero_percentage_not_above:
  assumes "is_zero d"
  shows "\<not> fgt (fmul (fdiv d y) (Finite 100)) TolerancePercentage"
proof -
  from assms have d: "\<not> is_nan d" "\<not> is_inf d" by (cases d; simp)+
  have "fdiv d y = NaN \<or> is_zero (fdiv d y) \<and> \<not> is_inf (fdiv d y) \<and> \<not> is_nan (fdiv d y)"
    using assms d by (simp add: fdiv_def)
  then have "is_nan (fmul (fdiv d y) (Finite 100)) \<or> is_zero (fmul (fdiv d y) (Finite 100))"
    by (auto simp: fmul_def)
  then show ?thesis
    by (cases "fmul (fdiv d y) (Finite 100)")
       (simp_all add: fgt_def flt_def TolerancePercentage_def)
qed


section \<open>The shape of one step of each loop\<close>

lemma fold_inv:
  assumes "P s" and "\<And>x s. x \<in> set xs \<Longrightarrow> P s \<Longrightarrow> P (f x s)"
  shows "P (fold f xs s)"
  using assms by (induction xs arbitrary: s) auto

lemma reference_step_cases:
  "reference_step idx b s = s \<or>
   (\<exists>r p. \<not> lookup_bool (reconciledBilletsMap s) (Billet.ID b)
      \<and> Billet.ReferenceID b = Some r \<and> r \<noteq> [] \<and> idx r = Some p
      \<and> (feq (amountDiff p b) (Finite 0)
          \<or> fle (amountDiffPercentage p b) TolerancePercentage)
      \<and> reference_step idx b s =
          reference_match b p
            (if feq (amountDiff p b) (Finite 0) then StatusSuccessful
             else StatusDifferentValue) s)"
proof (cases "lookup_bool (reconciledBilletsMap s) (Billet.ID b)")
  case True
  then show ?thesis by (simp add: reference_step_def)
next
  case unmarked: False
  show ?thesis
  proof (cases "Billet.ReferenceID b")
    case None
    with unmarked show ?thesis by (simp add: reference_step_def)
  next
    case (Some r)
    show ?thesis
    proof (cases "idx r")
      case None
      with unmarked Some show ?thesis by (simp add: reference_step_def)
    next
      case found: (Some p)
      with unmarked Some show ?thesis by (simp add: reference_step_def)
    qed
  qed
qed

lemma account_apply_cases:
  "account_apply billets p s = s \<or>
   (\<exists>best. \<not> lookup_bool (usedPaymentsMap s) (Payment.ID p)
      \<and> bestBillet (scan_steps p (reconciledBilletsMap s) billets) = Some best
      \<and> account_apply billets p s =
          account_match best p
            (bestAmountDiff (scan_steps p (reconciledBilletsMap s) billets)) s)"
proof (cases "bestBillet (scan_steps p (reconciledBilletsMap s) billets)")
  case None
  then show ?thesis by (simp add: account_apply_def)
next
  case (Some best)
  then show ?thesis by (simp add: account_apply_def)
qed

text \<open>Both strategies run one after the other from the initial state.\<close>

lemma final_state_inv:
  assumes "P init_state"
    and "\<And>b s. b \<in> set billets \<Longrightarrow> P s \<Longrightarrow>
           P (reference_step (payments_index Map.empty payments) b s)"
    and "\<And>p s. p \<in> set payments \<Longrightarrow> P s \<Longrightarrow> P (account_apply billets p s)"
  shows "P (final_state billets payments)"
proof -
  have "P (reference_steps (payments_index Map.empty payments) billets init_state)"
    unfolding reference_steps_def
    using assms(1,2) by (rule fold_inv [where P = P])
  then show ?thesis
    unfolding final_state_def account_steps_def
    using assms(3) by (rule fold_inv [where P = P])
qed

section \<open>The result is there when no pointer is nil\<close>

lemma reference_step_not_nil:
  "reconciledBillets s \<noteq> None \<Longrightarrow> reconciledBillets (reference_step idx b s) \<noteq> None"
  using reference_step_cases [of idx b s] by (auto simp: append_slice_def)

lemma account_apply_not_nil:
  "reconciledBillets s \<noteq> None \<Longrightarrow> reconciledBillets (account_apply billets p s) \<noteq> None"
  using account_apply_cases [of billets p s] by (auto simp: append_slice_def)

lemma final_state_not_nil: "reconciledBillets (final_state billets payments) \<noteq> None"
  by (rule final_state_inv [where P = "\<lambda>s. reconciledBillets s \<noteq> None"])
     (simp_all add: init_state_def reference_step_not_nil account_apply_not_nil)

section \<open>The inner loop of the second strategy\<close>


lemma beats_irrefl: "\<not> beats p b b"
  by (simp add: beats_def flt_irrefl)




lemma isBetter_first: "bestBillet st = None \<Longrightarrow> isBetter p x st"
  by (simp add: isBetter_def)

lemma scan_step_skip: "\<not> candidate p rm x \<Longrightarrow> scan_step p rm x st = st"
  by (auto simp: scan_step_def candidate_def)

lemma scan_step_candidate:
  "candidate p rm x \<Longrightarrow>
   scan_step p rm x st =
     (if isBetter p x st
      then \<lparr>bestBillet = Some x, minDateDiff = dateDiff p x, bestAmountDiff = amountDiff p x\<rparr>
      else st)"
  by (simp add: scan_step_def candidate_def)

lemma scan_steps_snoc:
  "scan_steps p rm (xs @ [x]) = scan_step p rm x (scan_steps p rm xs)"
  by (simp add: scan_steps_def)

text \<open>
  What the inner loop holds after any prefix of the billets, whatever the dates and the
  amounts: nothing when no candidate was seen, and otherwise one of the candidates.
\<close>

lemma scan_steps_sound:
  "tracks p (scan_steps p rm billets) \<and>
   (case bestBillet (scan_steps p rm billets) of
      None \<Rightarrow> filter (candidate p rm) billets = []
    | Some b \<Rightarrow> b \<in> set (filter (candidate p rm) billets))"
proof (induction billets rule: rev_induct)
  case Nil
  show ?case by (simp add: scan_steps_def init_best_def tracks_def)
next
  case (snoc x xs)
  show ?case
  proof (cases "candidate p rm x")
    case False
    with snoc show ?thesis
      by (simp add: scan_steps_snoc scan_step_skip split: option.splits)
  next
    case cand: True
    show ?thesis
    proof (cases "isBetter p x (scan_steps p rm xs)")
      case True
      with cand show ?thesis
        by (simp add: scan_steps_snoc scan_step_candidate tracks_def)
    next
      case False
      then obtain b where "bestBillet (scan_steps p rm xs) = Some b"
        using isBetter_first [of "scan_steps p rm xs" p x]
        by (cases "bestBillet (scan_steps p rm xs)") auto
      with snoc cand False show ?thesis
        by (simp add: scan_steps_snoc scan_step_candidate)
    qed
  qed
qed

lemma scan_steps_best:
  assumes "bestBillet (scan_steps p rm billets) = Some b"
  shows "b \<in> set billets \<and> candidate p rm b
     \<and> bestAmountDiff (scan_steps p rm billets) = amountDiff p b"
  using scan_steps_sound [of p rm billets] assms by (simp add: tracks_def)


section \<open>The lookup of the first strategy\<close>

lemma find_snoc:
  "List.find P (xs @ [x]) =
     (case List.find P xs of None \<Rightarrow> (if P x then Some x else None) | Some y \<Rightarrow> Some y)"
  by (induction xs) simp_all

lemma index_payment_apply:
  "index_payment used p m r =
     (if Payment.ReferenceID p = Some r \<and> r \<noteq> [] \<and> \<not> lookup_bool used (Payment.ID p)
      then Some p else m r)"
  by (auto simp: index_payment_def split: option.splits)

lemma fold_keeps_last:
  assumes "\<And>p m. f p m r = (if Q p then Some p else m r)"
  shows "fold f ps m r = (case List.find Q (rev ps) of None \<Rightarrow> m r | Some p \<Rightarrow> Some p)"
proof (induction ps arbitrary: m)
  case Nil
  show ?case by simp
next
  case (Cons p ps)
  show ?case
    by (cases "List.find Q (rev ps)") (simp_all add: Cons.IH find_snoc assms)
qed

lemma index_payment_fold_lookup:
  "fold (index_payment used) payments m r =
     (case List.find (\<lambda>q. Payment.ReferenceID q = Some r \<and> r \<noteq> []
                          \<and> \<not> lookup_bool used (Payment.ID q)) (rev payments) of
        None \<Rightarrow> m r
      | Some p \<Rightarrow> Some p)"
  by (rule fold_keeps_last) (rule index_payment_apply)

lemma run_index_lookup:
  "r \<noteq> [] \<Longrightarrow> payments_index Map.empty payments r = last_with_reference payments r"
  by (simp add: payments_index_def index_payment_fold_lookup last_with_reference_def
      split: option.splits)

section \<open>Every entry of a report is of one of two kinds\<close>

lemma reference_step_entries:
  assumes "\<forall>m\<in>set (elems (reconciledBillets s)).
             reference_entry billets payments m \<or> account_entry billets payments m"
    and "b \<in> set billets"
  shows "\<forall>m\<in>set (elems (reconciledBillets
            (reference_step (payments_index Map.empty payments) b s))).
           reference_entry billets payments m \<or> account_entry billets payments m"
proof -
  let ?idx = "payments_index Map.empty payments"
  from reference_step_cases [of ?idx b s] show ?thesis
  proof
    assume "reference_step ?idx b s = s"
    with assms(1) show ?thesis by simp
  next
    assume "\<exists>r p. \<not> lookup_bool (reconciledBilletsMap s) (Billet.ID b)
      \<and> Billet.ReferenceID b = Some r \<and> r \<noteq> [] \<and> ?idx r = Some p
      \<and> (feq (amountDiff p b) (Finite 0) \<or> fle (amountDiffPercentage p b) TolerancePercentage)
      \<and> reference_step ?idx b s =
          reference_match b p
            (if feq (amountDiff p b) (Finite 0) then StatusSuccessful else StatusDifferentValue) s"
    then obtain r p where
      ref: "Billet.ReferenceID b = Some r" "r \<noteq> []" "?idx r = Some p"
      and tol: "feq (amountDiff p b) (Finite 0) \<or> fle (amountDiffPercentage p b) TolerancePercentage"
      and step: "reference_step ?idx b s =
          reference_match b p
            (if feq (amountDiff p b) (Finite 0) then StatusSuccessful else StatusDifferentValue) s"
      by blast
    from ref have "last_with_reference payments r = Some p"
      by (simp add: run_index_lookup)
    with ref tol assms(2) have
      "reference_entry billets payments
         (reference_result b p
            (if feq (amountDiff p b) (Finite 0) then StatusSuccessful else StatusDifferentValue))"
      unfolding reference_entry_def by blast
    with assms(1) step show ?thesis by simp
  qed
qed

lemma account_apply_entries:
  assumes "\<forall>m\<in>set (elems (reconciledBillets s)).
             reference_entry billets payments m \<or> account_entry billets payments m"
    and "p \<in> set payments"
  shows "\<forall>m\<in>set (elems (reconciledBillets (account_apply billets p s))).
           reference_entry billets payments m \<or> account_entry billets payments m"
proof -
  let ?st = "scan_steps p (reconciledBilletsMap s) billets"
  from account_apply_cases [of billets p s] show ?thesis
  proof
    assume "account_apply billets p s = s"
    with assms(1) show ?thesis by simp
  next
    assume "\<exists>best. \<not> lookup_bool (usedPaymentsMap s) (Payment.ID p)
      \<and> bestBillet ?st = Some best
      \<and> account_apply billets p s = account_match best p (bestAmountDiff ?st) s"
    then obtain best where
      best: "bestBillet ?st = Some best"
      and step: "account_apply billets p s = account_match best p (bestAmountDiff ?st) s"
      by blast
    from scan_steps_best [OF best] have
      "best \<in> set billets" "candidate p (reconciledBilletsMap s) best"
      "bestAmountDiff ?st = amountDiff p best"
      by simp_all
    with assms(2) have
      "account_entry billets payments (account_result best p (bestAmountDiff ?st))"
      unfolding account_entry_def candidate_def by auto
    with assms(1) step show ?thesis by simp
  qed
qed

lemma final_state_entries:
  "\<forall>m\<in>set (elems (reconciledBillets (final_state billets payments))).
     reference_entry billets payments m \<or> account_entry billets payments m"
proof (rule final_state_inv [where P = "\<lambda>s::run_state.
     \<forall>m\<in>set (elems (reconciledBillets s)).
       reference_entry billets payments m \<or> account_entry billets payments m"])
  show "\<forall>m\<in>set (elems (reconciledBillets init_state)).
     reference_entry billets payments m \<or> account_entry billets payments m"
    by (simp add: init_state_def)
next
  fix b and s :: run_state
  assume "b \<in> set billets"
    and "\<forall>m\<in>set (elems (reconciledBillets s)).
       reference_entry billets payments m \<or> account_entry billets payments m"
  then show "\<forall>m\<in>set (elems (reconciledBillets
        (reference_step (payments_index Map.empty payments) b s))).
       reference_entry billets payments m \<or> account_entry billets payments m"
    using reference_step_entries [of s billets payments b] by simp
next
  fix p and s :: run_state
  assume "p \<in> set payments"
    and "\<forall>m\<in>set (elems (reconciledBillets s)).
       reference_entry billets payments m \<or> account_entry billets payments m"
  then show "\<forall>m\<in>set (elems (reconciledBillets (account_apply billets p s))).
       reference_entry billets payments m \<or> account_entry billets payments m"
    using account_apply_entries [of s billets payments p] by simp
qed

lemma report_entries:
  assumes "ReconcileBilletsWithPayments billets payments = Inr (Some r, err)"
    and "m \<in> set (elems (ReconciledBillets r))"
  shows "reference_entry (pointees billets) (pointees payments) m
     \<or> account_entry (pointees billets) (pointees payments) m"
  using ReconcileBilletsWithPayments_returns(1) [OF assms(1)] assms(2)
    final_state_entries [of "pointees billets" "pointees payments"]
  by simp

lemma reference_entry_strategy:
  "reference_entry billets payments m \<Longrightarrow> ConciliationStrategy m = StrategyReferenceID"
  by (auto simp: reference_entry_def)

lemma account_entry_strategy:
  "account_entry billets payments m \<Longrightarrow> ConciliationStrategy m = StrategyAccountAmountDate"
  by (auto simp: account_entry_def)

section \<open>The bookkeeping of the billets\<close>

lemma billets_tracked_append:
  assumes "billets_tracked billets s"
    and "\<not> lookup_bool (reconciledBilletsMap s) (Billet.ID b)"
    and "b \<in> set billets"
    and "reconciledBilletsMap s' = (reconciledBilletsMap s)(Billet.ID b \<mapsto> True)"
    and "reconciledBillets s' = append_slice (reconciledBillets s) m"
    and "BilletID m = Billet.ID b"
  shows "billets_tracked billets s'"
proof -
  from assms(1) have
    d: "distinct (map BilletID (elems (reconciledBillets s)))"
    and t: "\<And>k. lookup_bool (reconciledBilletsMap s) k =
              (k \<in> BilletID ` set (elems (reconciledBillets s)))"
    and i: "BilletID ` set (elems (reconciledBillets s)) \<subseteq> Billet.ID ` set billets"
    by (simp_all add: billets_tracked_def)
  from assms(2) t have new: "Billet.ID b \<notin> BilletID ` set (elems (reconciledBillets s))"
    by simp
  have "distinct (map BilletID (elems (reconciledBillets s')))"
    using d new assms(5,6) by simp
  moreover have "lookup_bool (reconciledBilletsMap s') k =
      (k \<in> BilletID ` set (elems (reconciledBillets s')))" for k
    using t [of k] assms(4,5,6) by auto
  moreover have "BilletID ` set (elems (reconciledBillets s')) \<subseteq> Billet.ID ` set billets"
    using i assms(3,5,6) by auto
  ultimately show ?thesis by (simp add: billets_tracked_def)
qed

lemma reference_step_tracked:
  assumes "billets_tracked billets s" and "b \<in> set billets"
  shows "billets_tracked billets (reference_step idx b s)"
proof -
  from reference_step_cases [of idx b s] show ?thesis
  proof
    assume "reference_step idx b s = s"
    with assms(1) show ?thesis by simp
  next
    assume "\<exists>r p. \<not> lookup_bool (reconciledBilletsMap s) (Billet.ID b)
      \<and> Billet.ReferenceID b = Some r \<and> r \<noteq> [] \<and> idx r = Some p
      \<and> (feq (amountDiff p b) (Finite 0) \<or> fle (amountDiffPercentage p b) TolerancePercentage)
      \<and> reference_step idx b s =
          reference_match b p
            (if feq (amountDiff p b) (Finite 0) then StatusSuccessful else StatusDifferentValue) s"
    then obtain p st where
      "\<not> lookup_bool (reconciledBilletsMap s) (Billet.ID b)"
      and "reference_step idx b s = reference_match b p st s"
      by blast
    with assms show ?thesis
      by (simp add: billets_tracked_append [where b = b and m = "reference_result b p st"])
  qed
qed





section \<open>Runs on concrete data\<close>

lemma reference_data_run:
  "ReconcileBilletsWithPayments (pointers reference_billets) (pointers reference_payments) =
     Inr (Some
       \<lparr>ReconciledBillets = Some
          [\<lparr>BilletID = ''B001'', BankAccount = ''C123'', TransactionID = ''T100'',
            ConciliationStatus = ''conciliado_com_sucesso'',
            ConciliationStrategy = ''reference_id'',
            ReferenceID = Some ''REF001'', AmountDiff = Finite 0\<rparr>,
           \<lparr>BilletID = ''B004'', BankAccount = ''C910'', TransactionID = ''T103'',
            ConciliationStatus = ''conciliado_com_sucesso'',
            ConciliationStrategy = ''reference_id'',
            ReferenceID = Some ''REF004'', AmountDiff = Finite 0\<rparr>,
           \<lparr>BilletID = ''B002'', BankAccount = ''C345'', TransactionID = ''T101'',
            ConciliationStatus = ''valor_diferente'',
            ConciliationStrategy = ''conta_valor_data'',
            ReferenceID = None, AmountDiff = Finite 5\<rparr>,
           \<lparr>BilletID = ''B003'', BankAccount = ''C678'', TransactionID = ''T102'',
            ConciliationStatus = ''conciliado_com_sucesso'',
            ConciliationStrategy = ''conta_valor_data'',
            ReferenceID = Some ''REF003'', AmountDiff = Finite 0\<rparr>],
        NonReconciledBillets = Some []\<rparr>,
      None)"
  by code_simp

lemma shared_reference_run:
  "ReconcileBilletsWithPayments (pointers [B001, B005]) (pointers [T100]) =
     Inr (Some
       \<lparr>ReconciledBillets = Some
          [\<lparr>BilletID = ''B001'', BankAccount = ''C123'', TransactionID = ''T100'',
            ConciliationStatus = ''conciliado_com_sucesso'',
            ConciliationStrategy = ''reference_id'',
            ReferenceID = Some ''REF001'', AmountDiff = Finite 0\<rparr>,
           \<lparr>BilletID = ''B005'', BankAccount = ''C123'', TransactionID = ''T100'',
            ConciliationStatus = ''conciliado_com_sucesso'',
            ConciliationStrategy = ''reference_id'',
            ReferenceID = Some ''REF001'', AmountDiff = Finite 0\<rparr>],
        NonReconciledBillets = Some []\<rparr>,
      None)"
  by code_simp

lemma repeated_reference_run:
  "ReconcileBilletsWithPayments (pointers [B001]) (pointers [T100, T104]) =
     Inr (Some
       \<lparr>ReconciledBillets = Some
          [\<lparr>BilletID = ''B001'', BankAccount = ''C123'', TransactionID = ''T104'',
            ConciliationStatus = ''conciliado_com_sucesso'',
            ConciliationStrategy = ''reference_id'',
            ReferenceID = Some ''REF001'', AmountDiff = Finite 0\<rparr>],
        NonReconciledBillets = Some []\<rparr>,
      None)"
  by code_simp

lemma equal_amounts_differ_by_zero [simp]:
  "amountDiff T100 B001 = Finite 0" "amountDiff T104 B001 = Finite 0"
  "amountDiff T100 B005 = Finite 0" "amountDiff T103 B004 = Finite 0"
  by (simp_all add: amountDiff_def fabs_fsub_equal feq_def data_defs more_data_defs)

text \<open>
  C6. On the reference data set (billets B001..B004, payments T100..T103, tolerance 5%)
  the report pairs B001 with T100 as conciliado_com_sucesso by reference_id with
  difference 0, B002 with T101 as valor_diferente by conta_valor_data with difference 5,
  B003 with T102 as conciliado_com_sucesso by conta_valor_data with difference 0 and B004
  with T103 as conciliado_com_sucesso by reference_id with difference 0, and the sequence
  of unmatched billets is empty. The entries of the first strategy come first.
\<close>

theorem reference_data_set_report:
  "\<exists>r. ReconcileBilletsWithPayments (pointers reference_billets) (pointers reference_payments) =
         Inr (Some r, None)
     \<and> map summary (elems (ReconciledBillets r)) =
         [(''B001'', ''T100'', ''conciliado_com_sucesso'', ''reference_id'', Finite 0),
          (''B004'', ''T103'', ''conciliado_com_sucesso'', ''reference_id'', Finite 0),
          (''B002'', ''T101'', ''valor_diferente'', ''conta_valor_data'', Finite 5),
          (''B003'', ''T102'', ''conciliado_com_sucesso'', ''conta_valor_data'', Finite 0)]
     \<and> NonReconciledBillets r = Some []"
  unfolding reference_data_run by (simp add: summary_def)

text \<open>
  C1, at a failing input. Two billets carry the reference of one payment: the loop of
  the first strategy looks the payment up for each of them and never reads
  \<open>usedPaymentsMap\<close>, so the payment T100 is consumed by two entries of the report.
\<close>

theorem payment_consumed_twice:
  "\<exists>r. ReconcileBilletsWithPayments (pointers [B001, B005]) (pointers [T100]) =
         Inr (Some r, None)
     \<and> map summary (elems (ReconciledBillets r)) =
         [(''B001'', ''T100'', ''conciliado_com_sucesso'', ''reference_id'', Finite 0),
          (''B005'', ''T100'', ''conciliado_com_sucesso'', ''reference_id'', Finite 0)]
     \<and> \<not> distinct (map TransactionID (elems (ReconciledBillets r)))"
  unfolding shared_reference_run by (simp add: summary_def)

section \<open>The lookup keeps the last payment of a reference\<close>

text \<open>
  C2, as the claim states it, fails. \<open>T100\<close> and \<open>T104\<close> carry the reference REF001, in
  this order: the first of them is \<open>T100\<close>, the lookup of the first strategy holds \<open>T104\<close>,
  and the report pairs \<open>B001\<close> with \<open>T104\<close> by reference_id.
\<close>

theorem first_payment_not_eligible:
  "first_with_reference [T100, T104] ''REF001'' = Some T100
   \<and> paymentsByReferenceID Map.empty [Some T100, Some T104] Map.empty =
       Inr (payments_index Map.empty [T100, T104])
   \<and> payments_index Map.empty [T100, T104] ''REF001'' = Some T104
   \<and> ReconcileBilletsWithPayments (pointers [B001]) (pointers [T100, T104]) =
       Inr (Some \<lparr>ReconciledBillets = Some [reference_result B001 T104 StatusSuccessful],
                   NonReconciledBillets = Some []\<rparr>,
            None)
   \<and> TransactionID (reference_result B001 T104 StatusSuccessful) = ''T104''
   \<and> Payment.ID T100 = ''T100''"
proof -
  have "first_with_reference [T100, T104] ''REF001'' = Some T100"
    by (simp add: first_with_reference_def data_defs more_data_defs)
  moreover have "paymentsByReferenceID Map.empty [Some T100, Some T104] Map.empty =
       Inr (payments_index Map.empty [T100, T104])"
    using paymentsByReferenceID_total [of Map.empty "[T100, T104]" Map.empty]
    by (simp add: payments_index_def)
  moreover have "payments_index Map.empty [T100, T104] ''REF001'' = Some T104"
    by (simp add: run_index_lookup last_with_reference_def data_defs more_data_defs)
  moreover have "ReconcileBilletsWithPayments (pointers [B001]) (pointers [T100, T104]) =
       Inr (Some \<lparr>ReconciledBillets = Some [reference_result B001 T104 StatusSuccessful],
                   NonReconciledBillets = Some []\<rparr>,
            None)"
    unfolding repeated_reference_run
    by (simp add: result_defs) (simp add: data_defs more_data_defs)
  moreover have "TransactionID (reference_result B001 T104 StatusSuccessful) = ''T104''"
    "Payment.ID T100 = ''T100''"
    by (simp_all add: data_defs more_data_defs)
  ultimately show ?thesis by (intro conjI)
qed

text \<open>
  C2, amended. In the first strategy, when several payments carry the same non-empty
  reference, only the last of them in input order is eligible: every reference_id entry
  of a report pairs a billet that has a non-empty reference with the last payment that
  carries this reference. The earlier ones are invisible to the first strategy.
\<close>

theorem reference_entry_pairs_last_payment:
  assumes "ReconcileBilletsWithPayments billets payments = Inr (Some r, err)"
    and "m \<in> set (elems (ReconciledBillets r))"
    and "ConciliationStrategy m = StrategyReferenceID"
  shows "\<exists>b\<in>set (pointees billets). \<exists>ref p.
           Billet.ReferenceID b = Some ref \<and> ref \<noteq> []
           \<and> last_with_reference (pointees payments) ref = Some p
           \<and> BilletID m = Billet.ID b \<and> TransactionID m = Payment.ID p"
proof -
  from report_entries [OF assms(1,2)] assms(3)
  have "reference_entry (pointees billets) (pointees payments) m"
    using account_entry_strategy strategies_differ by fastforce
  then show ?thesis
    unfolding reference_entry_def by fastforce
qed

theorem reference_entry_pairs_last_payment_witness:
  "ReconcileBilletsWithPayments (pointers [B001]) (pointers [T100, T104]) =
     Inr (Some \<lparr>ReconciledBillets = Some [reference_result B001 T104 StatusSuccessful],
                 NonReconciledBillets = Some []\<rparr>,
          None)
   \<and> ConciliationStrategy (reference_result B001 T104 StatusSuccessful) = StrategyReferenceID
   \<and> last_with_reference [T100, T104] ''REF001'' = Some T104
   \<and> (\<exists>b\<in>set [B001]. \<exists>ref p.
         Billet.ReferenceID b = Some ref \<and> ref \<noteq> []
         \<and> last_with_reference [T100, T104] ref = Some p
         \<and> BilletID (reference_result B001 T104 StatusSuccessful) = Billet.ID b
         \<and> TransactionID (reference_result B001 T104 StatusSuccessful) = Payment.ID p)"
proof -
  let ?m = "reference_result B001 T104 StatusSuccessful"
  let ?r = "\<lparr>ReconciledBillets = Some [?m], NonReconciledBillets = Some []\<rparr>"
  have run: "ReconcileBilletsWithPayments (pointers [B001]) (pointers [T100, T104]) =
      Inr (Some ?r, None)"
    unfolding repeated_reference_run
    by (simp add: result_defs) (simp add: data_defs more_data_defs)
  have mem: "?m \<in> set (elems (ReconciledBillets ?r))" by simp
  have strat: "ConciliationStrategy ?m = StrategyReferenceID" by simp
  have last: "last_with_reference [T100, T104] ''REF001'' = Some T104"
    by (simp add: last_with_reference_def data_defs more_data_defs)
  from reference_entry_pairs_last_payment [OF run mem strat]
  have "\<exists>b\<in>set [B001]. \<exists>ref p.
           Billet.ReferenceID b = Some ref \<and> ref \<noteq> []
           \<and> last_with_reference [T100, T104] ref = Some p
           \<and> BilletID ?m = Billet.ID b \<and> TransactionID ?m = Payment.ID p"
    by simp
  with run strat last show ?thesis by (intro conjI)
qed

section \<open>Bank accounts and references of the entries\<close>

lemma reference_data_differences [simp]:
  "amountDiff T101 B002 = Finite 5" "amountDiff T102 B003 = Finite 0"
  by code_simp+

lemma reference_data_entries:
  "ReconcileBilletsWithPayments (pointers reference_billets) (pointers reference_payments) =
     Inr (Some \<lparr>ReconciledBillets = Some
                   [reference_result B001 T100 StatusSuccessful,
                    reference_result B004 T103 StatusSuccessful,
                    account_result B002 T101 (Finite 5),
                    account_result B003 T102 (Finite 0)],
                 NonReconciledBillets = Some []\<rparr>,
          None)"
  unfolding reference_data_run
  by (simp add: result_defs feq_def) (simp add: data_defs)

text \<open>
  C3, as the claim states it, fails on the reference data set: the report holds the entry
  of \<open>B004\<close> (account C910) and \<open>T103\<close> (account C999), made by the first strategy, and
  the input has no billet and payment with these identifiers and one bank account. The
  first strategy never compares accounts.
\<close>

theorem cross_account_match:
  "ReconcileBilletsWithPayments (pointers reference_billets) (pointers reference_payments) =
     Inr (Some \<lparr>ReconciledBillets = Some
                   [reference_result B001 T100 StatusSuccessful,
                    reference_result B004 T103 StatusSuccessful,
                    account_result B002 T101 (Finite 5),
                    account_result B003 T102 (Finite 0)],
                 NonReconciledBillets = Some []\<rparr>,
          None)
   \<and> \<not> same_account_pair reference_billets reference_payments
         (reference_result B004 T103 StatusSuccessful)
   \<and> Billet.BankAccount B004 = ''C910'' \<and> Payment.BankAccount T103 = ''C999''"
proof -
  have "\<not> same_account_pair reference_billets reference_payments
         (reference_result B004 T103 StatusSuccessful)"
    by (simp add: same_account_pair_def reference_billets_def reference_payments_def
        data_defs)
  moreover have "Billet.BankAccount B004 = ''C910''" "Payment.BankAccount T103 = ''C999''"
    by (simp_all add: data_defs)
  ultimately show ?thesis using reference_data_entries by (intro conjI)
qed

text \<open>
  C3, amended. Every entry that the second strategy (conta_valor_data) produces pairs a
  billet and a payment that have the same bank account. Entries of the first strategy
  (reference_id) are paired by the reference alone, whatever the accounts.
\<close>

theorem account_entry_same_account:
  assumes "ReconcileBilletsWithPayments billets payments = Inr (Some r, err)"
    and "m \<in> set (elems (ReconciledBillets r))"
    and "ConciliationStrategy m = StrategyAccountAmountDate"
  shows "same_account_pair (pointees billets) (pointees payments) m"
proof -
  from report_entries [OF assms(1,2)] assms(3)
  have "account_entry (pointees billets) (pointees payments) m"
    using reference_entry_strategy strategies_differ by fastforce
  then show ?thesis
    unfolding account_entry_def same_account_pair_def by fastforce
qed

theorem account_entry_same_account_witness:
  "ReconcileBilletsWithPayments (pointers reference_billets) (pointers reference_payments) =
     Inr (Some \<lparr>ReconciledBillets = Some
                   [reference_result B001 T100 StatusSuccessful,
                    reference_result B004 T103 StatusSuccessful,
                    account_result B002 T101 (Finite 5),
                    account_result B003 T102 (Finite 0)],
                 NonReconciledBillets = Some []\<rparr>,
          None)
   \<and> ConciliationStrategy (account_result B002 T101 (Finite 5)) = StrategyAccountAmountDate
   \<and> same_account_pair reference_billets reference_payments
       (account_result B002 T101 (Finite 5))
   \<and> Billet.BankAccount B002 = ''C345'' \<and> Payment.BankAccount T101 = ''C345''"
proof -
  let ?m = "account_result B002 T101 (Finite 5)"
  let ?r = "\<lparr>ReconciledBillets = Some
      [reference_result B001 T100 StatusSuccessful, reference_result B004 T103 StatusSuccessful,
       ?m, account_result B003 T102 (Finite 0)],
     NonReconciledBillets = Some []\<rparr>"
  note run = reference_data_entries
  have mem: "?m \<in> set (elems (ReconciledBillets ?r))" by simp
  have strat: "ConciliationStrategy ?m = StrategyAccountAmountDate" by simp
  have accounts: "Billet.BankAccount B002 = ''C345''" "Payment.BankAccount T101 = ''C345''"
    by (simp_all add: data_defs)
  from account_entry_same_account [OF run mem strat]
  have "same_account_pair reference_billets reference_payments ?m"
    by simp
  with run strat accounts show ?thesis by (intro conjI)
qed

text \<open>
  C9. Every entry that the second strategy (conta_valor_data) produces is built from a
  billet and a payment of the input, and its reference_id field is the reference of that
  billet, nil or not; the reference of the payment is not used. In the reference data set
  the entry of \<open>B003\<close> and \<open>T102\<close> carries REF003, the payment carrying REF999.
\<close>

theorem account_entry_reference_of_billet:
  assumes "ReconcileBilletsWithPayments billets payments = Inr (Some r, err)"
    and "m \<in> set (elems (ReconciledBillets r))"
    and "ConciliationStrategy m = StrategyAccountAmountDate"
  shows "\<exists>b\<in>set (pointees billets). \<exists>p\<in>set (pointees payments).
           m = account_result b p (amountDiff p b)
           \<and> ReconciledBillet.ReferenceID m = Billet.ReferenceID b"
proof -
  from report_entries [OF assms(1,2)] assms(3)
  have "account_entry (pointees billets) (pointees payments) m"
    using reference_entry_strategy strategies_differ by fastforce
  then show ?thesis
    unfolding account_entry_def by fastforce
qed

theorem account_entry_reference_of_billet_witness:
  "ReconcileBilletsWithPayments (pointers reference_billets) (pointers reference_payments) =
     Inr (Some \<lparr>ReconciledBillets = Some
                   [reference_result B001 T100 StatusSuccessful,
                    reference_result B004 T103 StatusSuccessful,
                    account_result B002 T101 (Finite 5),
                    account_result B003 T102 (Finite 0)],
                 NonReconciledBillets = Some []\<rparr>,
          None)
   \<and> ConciliationStrategy (account_result B003 T102 (Finite 0)) = StrategyAccountAmountDate
   \<and> ReconciledBillet.ReferenceID (account_result B003 T102 (Finite 0)) = Some ''REF003''
   \<and> Payment.ReferenceID T102 = Some ''REF999''
   \<and> (\<exists>b\<in>set reference_billets. \<exists>p\<in>set reference_payments.
         account_result B003 T102 (Finite 0) = account_result b p (amountDiff p b)
         \<and> ReconciledBillet.ReferenceID (account_result B003 T102 (Finite 0))
             = Billet.ReferenceID b)"
proof -
  let ?m = "account_result B003 T102 (Finite 0)"
  let ?r = "\<lparr>ReconciledBillets = Some
      [reference_result B001 T100 StatusSuccessful, reference_result B004 T103 StatusSuccessful,
       account_result B002 T101 (Finite 5), ?m],
     NonReconciledBillets = Some []\<rparr>"
  note run = reference_data_entries
  have mem: "?m \<in> set (elems (ReconciledBillets ?r))" by simp
  have strat: "ConciliationStrategy ?m = StrategyAccountAmountDate" by simp
  have refs: "ReconciledBillet.ReferenceID ?m = Some ''REF003''"
    "Payment.ReferenceID T102 = Some ''REF999''"
    by (simp_all add: data_defs)
  from account_entry_reference_of_billet [OF run mem strat]
  have "\<exists>b\<in>set reference_billets. \<exists>p\<in>set reference_payments.
           ?m = account_result b p (amountDiff p b)
           \<and> ReconciledBillet.ReferenceID ?m = Billet.ReferenceID b"
    by simp
  with run strat refs show ?thesis by (intro conjI)
qed

section \<open>Billets of amount zero\<close>


lemma distinct_key_eq:
  "distinct (map f xs) \<Longrightarrow> x \<in> set xs \<Longrightarrow> y \<in> set xs \<Longrightarrow> f x = f y \<Longrightarrow> x = y"
  by (meson distinct_map inj_onD)








section \<open>Failure of a call\<close>

text \<open>
  C10, as the claim states it, fails: the elements of the slices are pointers, the loops
  read a field of every element without a nil check, and a nil element, in either slice,
  ends the call in a panic.
\<close>

theorem nil_element_panics:
  "ReconcileBilletsWithPayments (Some [Some B001, None]) (pointers [T100]) =
     Inl NilPointerDereference
   \<and> ReconcileBilletsWithPayments (pointers [B001]) (Some [None]) =
     Inl NilPointerDereference"
  by (simp add: ReconcileBilletsWithPayments_panic)

text \<open>
  C10, amended. \<open>ReconcileBilletsWithPayments\<close> has no failure path on slices that hold
  no nil element: for all such billet and payment slices, nil or empty ones included, it
  returns a nil error and a non-nil result whose two sequences are non-nil. On a slice
  that holds a nil element it panics.
\<close>

theorem ReconcileBilletsWithPayments_total:
  "(None \<notin> set (elems billets) \<and> None \<notin> set (elems payments) \<longrightarrow>
      (\<exists>rs ns. ReconcileBilletsWithPayments billets payments =
         Inr (Some \<lparr>ReconciledBillets = Some rs, NonReconciledBillets = Some ns\<rparr>, None)))
   \<and> (None \<in> set (elems billets) \<or> None \<in> set (elems payments) \<longrightarrow>
        ReconcileBilletsWithPayments billets payments = Inl NilPointerDereference)"
proof (intro conjI impI)
  assume ok: "None \<notin> set (elems billets) \<and> None \<notin> set (elems payments)"
  obtain rs where
    "reconciledBillets (final_state (pointees billets) (pointees payments)) = Some rs"
    using final_state_not_nil [of "pointees billets" "pointees payments"] by auto
  with ok show "\<exists>rs ns. ReconcileBilletsWithPayments billets payments =
         Inr (Some \<lparr>ReconciledBillets = Some rs, NonReconciledBillets = Some ns\<rparr>, None)"
    by (simp add: ReconcileBilletsWithPayments_report report_def)
next
  assume "None \<in> set (elems billets) \<or> None \<in> set (elems payments)"
  then show "ReconcileBilletsWithPayments billets payments = Inl NilPointerDereference"
    by (rule ReconcileBilletsWithPayments_panic)
qed

theorem ReconcileBilletsWithPayments_total_witness:
  "None \<notin> set (elems (None :: Billet option slice))
   \<and> None \<notin> set (elems (None :: Payment option slice))
   \<and> (\<exists>rs ns. ReconcileBilletsWithPayments None None =
         Inr (Some \<lparr>ReconciledBillets = Some rs, NonReconciledBillets = Some ns\<rparr>, None))
   \<and> ReconcileBilletsWithPayments None None =
       Inr (Some \<lparr>ReconciledBillets = Some [], NonReconciledBillets = Some []\<rparr>, None)
   \<and> None \<in> set (elems (Some [Some B001, None]))
   \<and> ReconcileBilletsWithPayments (Some [Some B001, None]) None = Inl NilPointerDereference"
proof -
  have ok: "None \<notin> set (elems (None :: Billet option slice))
      \<and> None \<notin> set (elems (None :: Payment option slice))"
    by simp
  from ReconcileBilletsWithPayments_total [of None None, THEN conjunct1] ok
  have some: "\<exists>rs ns. ReconcileBilletsWithPayments None None =
         Inr (Some \<lparr>ReconciledBillets = Some rs, NonReconciledBillets = Some ns\<rparr>, None)"
    by (rule mp)
  have empty: "ReconcileBilletsWithPayments None None =
       Inr (Some \<lparr>ReconciledBillets = Some [], NonReconciledBillets = Some []\<rparr>, None)"
    by (simp add: ReconcileBilletsWithPayments_def reconcileByReferenceID_def init_state_def)
  have nil: "None \<in> set (elems (Some [Some B001, None]))
      \<or> None \<in> set (elems (None :: Payment option slice))"
    by simp
  from ReconcileBilletsWithPayments_total [of "Some [Some B001, None]" None, THEN conjunct2] nil
  have panics:
    "ReconcileBilletsWithPayments (Some [Some B001, None]) None = Inl NilPointerDereference"
    by (rule mp)
  from ok some empty panics show ?thesis by simp
qed

section \<open>Every billet is in exactly one of the two sequences\<close>







section \<open>The classification of the first strategy\<close>

text \<open>Entries are only appended: what a state holds, every later state holds.\<close>

lemma reference_step_keeps:
  "m \<in> set (elems (reconciledBillets s)) \<Longrightarrow>
   m \<in> set (elems (reconciledBillets (reference_step idx b s)))"
  using reference_step_cases [of idx b s] by (auto simp: reference_match_def)

lemma account_apply_keeps:
  "m \<in> set (elems (reconciledBillets s)) \<Longrightarrow>
   m \<in> set (elems (reconciledBillets (account_apply billets p s)))"
  using account_apply_cases [of billets p s] by (auto simp: account_match_def)

lemma reference_steps_keeps:
  assumes "m \<in> set (elems (reconciledBillets s))"
  shows "m \<in> set (elems (reconciledBillets (reference_steps idx billets s)))"
  unfolding reference_steps_def
  by (rule fold_inv [where P = "\<lambda>s::run_state. m \<in> set (elems (reconciledBillets s))"])
     (simp_all add: assms reference_step_keeps)

lemma account_steps_keeps:
  assumes "m \<in> set (elems (reconciledBillets s))"
  shows "m \<in> set (elems (reconciledBillets (account_steps billets payments s)))"
  unfolding account_steps_def
  by (rule fold_inv [where P = "\<lambda>s::run_state. m \<in> set (elems (reconciledBillets s))"])
     (simp_all add: assms account_apply_keeps)

text \<open>The first strategy marks only billets that it has reached.\<close>

lemma reference_steps_tracked: "billets_tracked billets (reference_steps idx billets init_state)"
  unfolding reference_steps_def
proof (rule fold_inv [where P = "billets_tracked billets"])
  show "billets_tracked billets init_state"
    by (simp add: billets_tracked_def init_state_def)
qed (simp add: reference_step_tracked)

lemma reference_steps_unmarked:
  assumes "Billet.ID b \<notin> Billet.ID ` set pre"
  shows "\<not> lookup_bool (reconciledBilletsMap (reference_steps idx pre init_state)) (Billet.ID b)"
  using reference_steps_tracked [of pre idx] assms
  by (auto simp: billets_tracked_def)

lemma reference_steps_entries:
  "\<forall>m\<in>set (elems (reconciledBillets
       (reference_steps (payments_index Map.empty payments) billets init_state))).
     reference_entry billets payments m \<or> account_entry billets payments m"
  unfolding reference_steps_def
proof (rule fold_inv [where P = "\<lambda>s::run_state.
     \<forall>m\<in>set (elems (reconciledBillets s)).
       reference_entry billets payments m \<or> account_entry billets payments m"])
  show "\<forall>m\<in>set (elems (reconciledBillets init_state)).
     reference_entry billets payments m \<or> account_entry billets payments m"
    by (simp add: init_state_def)
next
  fix b and s :: run_state
  assume "b \<in> set billets"
    and "\<forall>m\<in>set (elems (reconciledBillets s)).
       reference_entry billets payments m \<or> account_entry billets payments m"
  then show "\<forall>m\<in>set (elems (reconciledBillets
        (reference_step (payments_index Map.empty payments) b s))).
       reference_entry billets payments m \<or> account_entry billets payments m"
    using reference_step_entries [of s billets payments b] by simp
qed

lemma reference_steps_strategy:
  "\<forall>m\<in>set (elems (reconciledBillets (reference_steps idx billets init_state))).
     ConciliationStrategy m = StrategyReferenceID"
  unfolding reference_steps_def
proof (rule fold_inv [where P = "\<lambda>s::run_state.
     \<forall>m\<in>set (elems (reconciledBillets s)). ConciliationStrategy m = StrategyReferenceID"])
  show "\<forall>m\<in>set (elems (reconciledBillets init_state)).
     ConciliationStrategy m = StrategyReferenceID"
    by (simp add: init_state_def)
next
  fix b and s :: run_state
  assume "\<forall>m\<in>set (elems (reconciledBillets s)). ConciliationStrategy m = StrategyReferenceID"
  then show "\<forall>m\<in>set (elems (reconciledBillets (reference_step idx b s))).
     ConciliationStrategy m = StrategyReferenceID"
    using reference_step_cases [of idx b s] by (auto simp: reference_match_def)
qed

text \<open>
  A billet that is not marked when the loop reaches it, and whose reference the lookup
  maps to a payment with equal amounts or within the tolerance, is entered.
\<close>

lemma reference_step_enters:
  assumes "\<not> lookup_bool (reconciledBilletsMap s) (Billet.ID b)"
    and "Billet.ReferenceID b = Some r" and "r \<noteq> []" and "idx r = Some p"
    and "feq (amountDiff p b) (Finite 0) \<or> fle (amountDiffPercentage p b) TolerancePercentage"
  shows "reference_result b p
      (if feq (amountDiff p b) (Finite 0) then StatusSuccessful else StatusDifferentValue)
    \<in> set (elems (reconciledBillets (reference_step idx b s)))"
  using assms by (auto simp: reference_step_def reference_match_def)

lemma final_state_enters:
  assumes "b \<in> set billets" and "distinct (map Billet.ID billets)"
    and "Billet.ReferenceID b = Some r" and "r \<noteq> []"
    and "last_with_reference payments r = Some p"
    and "feq (amountDiff p b) (Finite 0) \<or> fle (amountDiffPercentage p b) TolerancePercentage"
  shows "reference_result b p
      (if feq (amountDiff p b) (Finite 0) then StatusSuccessful else StatusDifferentValue)
    \<in> set (elems (reconciledBillets (final_state billets payments)))"
proof -
  let ?idx = "payments_index Map.empty payments"
  from assms(1) obtain pre post where split: "billets = pre @ b # post"
    by (auto dest: split_list)
  with assms(2) have "Billet.ID b \<notin> Billet.ID ` set pre" by auto
  then have unmarked:
    "\<not> lookup_bool (reconciledBilletsMap (reference_steps ?idx pre init_state)) (Billet.ID b)"
    by (rule reference_steps_unmarked)
  from assms(4,5) have idx: "?idx r = Some p" by (simp add: run_index_lookup)
  have
    "reference_result b p
       (if feq (amountDiff p b) (Finite 0) then StatusSuccessful else StatusDifferentValue)
     \<in> set (elems (reconciledBillets
          (reference_step ?idx b (reference_steps ?idx pre init_state))))"
    by (rule reference_step_enters [where idx = "?idx", OF unmarked assms(3,4) idx assms(6)])
  then have
    "reference_result b p
       (if feq (amountDiff p b) (Finite 0) then StatusSuccessful else StatusDifferentValue)
     \<in> set (elems (reconciledBillets
          (reference_steps ?idx post
             (reference_step ?idx b (reference_steps ?idx pre init_state)))))"
    by (rule reference_steps_keeps)
  moreover have "reference_steps ?idx billets init_state =
      reference_steps ?idx post (reference_step ?idx b (reference_steps ?idx pre init_state))"
    unfolding split reference_steps_def by simp
  ultimately have
    "reference_result b p
       (if feq (amountDiff p b) (Finite 0) then StatusSuccessful else StatusDifferentValue)
     \<in> set (elems (reconciledBillets (reference_steps ?idx billets init_state)))"
    by simp
  then show ?thesis
    unfolding final_state_def by (rule account_steps_keeps)
qed

text \<open>
  A billet whose percentage to the last payment of its reference is above the tolerance
  is named by no entry of the first strategy.
\<close>

lemma reference_entry_excluded:
  assumes "b \<in> set billets" and "distinct (map Billet.ID billets)"
    and "Billet.ReferenceID b = Some r"
    and "last_with_reference payments r = Some p"
    and "fgt (amountDiffPercentage p b) TolerancePercentage"
    and "reference_entry billets payments m"
  shows "BilletID m \<noteq> Billet.ID b"
proof
  assume same: "BilletID m = Billet.ID b"
  from assms(6) obtain b' r' p' where
    b': "b' \<in> set billets" and r': "Billet.ReferenceID b' = Some r'"
    and l: "last_with_reference payments r' = Some p'"
    and tol: "feq (amountDiff p' b') (Finite 0)
        \<or> fle (amountDiffPercentage p' b') TolerancePercentage"
    and id: "BilletID m = Billet.ID b'"
    unfolding reference_entry_def by fastforce
  from same id b' assms(1,2) have "b' = b" by (auto intro: distinct_key_eq)
  with r' l assms(3,4) have "p' = p" by simp
  from tol show False
  proof
    assume "feq (amountDiff p' b') (Finite 0)"
    then have "is_zero (amountDiff p b)"
      using \<open>b' = b\<close> \<open>p' = p\<close> by (simp add: feq_zero_iff)
    then have "\<not> fgt (amountDiffPercentage p b) TolerancePercentage"
      unfolding amountDiffPercentage_def by (rule zero_percentage_not_above)
    with assms(5) show False by simp
  next
    assume "fle (amountDiffPercentage p' b') TolerancePercentage"
    with assms(5) \<open>b' = b\<close> \<open>p' = p\<close> show False
      by (simp add: fgt_not_fle)
  qed
qed

lemma first_strategy_state:
  assumes "None \<notin> set (elems billets)" and "None \<notin> set (elems payments)"
  shows "reconcileByReferenceID (elems billets) (elems payments) init_state =
     Inr (reference_steps (payments_index Map.empty (pointees payments))
            (pointees billets) init_state)"
proof -
  from assms have b: "elems billets = map Some (pointees billets)"
    and p: "elems payments = map Some (pointees payments)"
    by (simp_all add: pointees_def map_Some_targets)
  show ?thesis
    unfolding reconcileByReferenceID_def b p
    by (simp add: paymentsByReferenceID_total reference_loop_total payments_index_def
        init_state_def)
qed

lemma shared_reference_last_run:
  "ReconcileBilletsWithPayments (pointers [B001]) (pointers [T100, T106]) =
     Inr (Some \<lparr>ReconciledBillets = Some [account_result B001 T100 (Finite 0)],
                 NonReconciledBillets = Some []\<rparr>,
          None)"
  by code_simp

lemma identical_amounts_run:
  "ReconcileBilletsWithPayments (pointers [B001]) (pointers [T100]) =
     Inr (Some \<lparr>ReconciledBillets = Some [reference_result B001 T100 StatusSuccessful],
                 NonReconciledBillets = Some []\<rparr>,
          None)"
  by code_simp

lemma boundary_run:
  "ReconcileBilletsWithPayments (pointers [B001]) (pointers [T105]) =
     Inr (Some \<lparr>ReconciledBillets = Some [reference_result B001 T105 StatusDifferentValue],
                 NonReconciledBillets = Some []\<rparr>,
          None)"
  by code_simp

lemma boundary_percentages:
  "amountDiff T105 B001 = Finite 5" "amountDiffPercentage T105 B001 = Finite 5"
  "amountDiffPercentage T106 B001 = Finite 6"
  by code_simp+

text \<open>
  C7, as the claim states it, fails: billet \<open>B001\<close> and payment \<open>T100\<close> share the
  non-empty reference \<open>REF001\<close> and have identical amounts, and \<open>T106\<close>, which follows
  \<open>T100\<close>, carries the same reference and pays 106. The lookup holds \<open>T106\<close>, the first
  strategy skips the billet at 6 percent, and the entry of \<open>B001\<close> and \<open>T100\<close> is made by
  the second strategy: its strategy is conta_valor_data, not reference_id.
\<close>

theorem identical_amounts_not_by_reference:
  "Billet.ReferenceID B001 = Some ''REF001'' \<and> Payment.ReferenceID T100 = Some ''REF001''
   \<and> feq (Payment.Amount T100) (Billet.Amount B001)
   \<and> ReconcileBilletsWithPayments (pointers [B001]) (pointers [T100, T106]) =
       Inr (Some \<lparr>ReconciledBillets =
                    Some [\<lparr>BilletID = ''B001'', ReconciledBillet.BankAccount = ''C123'',
                           TransactionID = ''T100'',
                           ConciliationStatus = ''conciliado_com_sucesso'',
                           ConciliationStrategy = ''conta_valor_data'',
                           ReconciledBillet.ReferenceID = Some ''REF001'',
                           AmountDiff = Finite 0\<rparr>],
                   NonReconciledBillets = Some []\<rparr>,
            None)"
  unfolding shared_reference_last_run
  by (simp add: data_defs more_data_defs result_defs feq_def)

text \<open>
  C7, amended. In a run that returns, over billets with pairwise different identifiers,
  take a billet with a non-empty reference and the last payment, in input order, that
  carries this reference. If the two amounts are identical and finite, the report holds
  the entry of the two with status conciliado_com_sucesso, strategy reference_id and
  difference 0. If the amount difference is not zero and the percentage is at most the
  tolerance, in particular exactly equal to it, the report holds the entry of the two
  with status valor_diferente and strategy reference_id. If the percentage exceeds the
  tolerance, the first strategy leaves the billet unmarked, so that the second strategy
  considers it, and every entry of the report that names the billet has strategy
  conta_valor_data.
\<close>

theorem reference_classification:
  assumes "ReconcileBilletsWithPayments billets payments = Inr (Some res, err)"
    and "billet \<in> set (pointees billets)"
    and "distinct (map Billet.ID (pointees billets))"
    and "Billet.ReferenceID billet = Some r" and "r \<noteq> []"
    and "last_with_reference (pointees payments) r = Some payment"
  shows
    "(feq (Payment.Amount payment) (Billet.Amount billet) \<and> \<not> is_inf (Billet.Amount billet) \<longrightarrow>
        \<lparr>BilletID = Billet.ID billet,
         ReconciledBillet.BankAccount = Billet.BankAccount billet,
         TransactionID = Payment.ID payment,
         ConciliationStatus = ''conciliado_com_sucesso'',
         ConciliationStrategy = ''reference_id'',
         ReconciledBillet.ReferenceID = Some r,
         AmountDiff = Finite 0\<rparr> \<in> set (elems (ReconciledBillets res)))
     \<and> (\<not> feq (amountDiff payment billet) (Finite 0)
        \<and> fle (amountDiffPercentage payment billet) TolerancePercentage \<longrightarrow>
        \<lparr>BilletID = Billet.ID billet,
         ReconciledBillet.BankAccount = Billet.BankAccount billet,
         TransactionID = Payment.ID payment,
         ConciliationStatus = ''valor_diferente'',
         ConciliationStrategy = ''reference_id'',
         ReconciledBillet.ReferenceID = Some r,
         AmountDiff = amountDiff payment billet\<rparr> \<in> set (elems (ReconciledBillets res)))
     \<and> (fgt (amountDiffPercentage payment billet) TolerancePercentage \<longrightarrow>
        (\<exists>s. reconcileByReferenceID (elems billets) (elems payments) init_state = Inr s
           \<and> \<not> lookup_bool (reconciledBilletsMap s) (Billet.ID billet))
        \<and> (\<forall>m\<in>set (elems (ReconciledBillets res)).
             BilletID m = Billet.ID billet \<longrightarrow> ConciliationStrategy m = ''conta_valor_data''))"
proof -
  let ?bs = "pointees billets" and ?ps = "pointees payments"
  let ?idx = "payments_index Map.empty ?ps"
  note ret = ReconcileBilletsWithPayments_returns [OF assms(1)]
  from ret(1) have entries: "ReconciledBillets res = reconciledBillets (final_state ?bs ?ps)"
    by simp
  have identical:
    "\<lparr>BilletID = Billet.ID billet,
      ReconciledBillet.BankAccount = Billet.BankAccount billet,
      TransactionID = Payment.ID payment,
      ConciliationStatus = ''conciliado_com_sucesso'',
      ConciliationStrategy = ''reference_id'',
      ReconciledBillet.ReferenceID = Some r,
      AmountDiff = Finite 0\<rparr> \<in> set (elems (ReconciledBillets res))"
    if eq: "feq (Payment.Amount payment) (Billet.Amount billet)"
      and fin: "\<not> is_inf (Billet.Amount billet)"
  proof -
    from eq fin have "\<not> is_inf (Payment.Amount payment)"
      by (cases "Payment.Amount payment"; cases "Billet.Amount billet")
         (simp_all add: feq_def)
    with eq have zero: "amountDiff payment billet = Finite 0"
      unfolding amountDiff_def by (rule fabs_fsub_equal)
    then have "feq (amountDiff payment billet) (Finite 0)"
      by (simp add: feq_def)
    with final_state_enters [OF assms(2,3,4,5,6)] have
      "reference_result billet payment StatusSuccessful
         \<in> set (elems (reconciledBillets (final_state ?bs ?ps)))"
      by simp
    then show ?thesis
      unfolding entries
      by (simp add: reference_result_def StatusSuccessful_def StrategyReferenceID_def
          zero assms(4))
  qed
  have different:
    "\<lparr>BilletID = Billet.ID billet,
      ReconciledBillet.BankAccount = Billet.BankAccount billet,
      TransactionID = Payment.ID payment,
      ConciliationStatus = ''valor_diferente'',
      ConciliationStrategy = ''reference_id'',
      ReconciledBillet.ReferenceID = Some r,
      AmountDiff = amountDiff payment billet\<rparr> \<in> set (elems (ReconciledBillets res))"
    if nz: "\<not> feq (amountDiff payment billet) (Finite 0)"
      and le: "fle (amountDiffPercentage payment billet) TolerancePercentage"
  proof -
    from le have "feq (amountDiff payment billet) (Finite 0)
        \<or> fle (amountDiffPercentage payment billet) TolerancePercentage"
      by simp
    from final_state_enters [OF assms(2,3,4,5,6) this] nz have
      "reference_result billet payment StatusDifferentValue
         \<in> set (elems (reconciledBillets (final_state ?bs ?ps)))"
      by simp
    then show ?thesis
      unfolding entries
      by (simp add: reference_result_def StatusDifferentValue_def StrategyReferenceID_def
          assms(4))
  qed
  have exceeding:
    "(\<exists>s. reconcileByReferenceID (elems billets) (elems payments) init_state = Inr s
        \<and> \<not> lookup_bool (reconciledBilletsMap s) (Billet.ID billet))
     \<and> (\<forall>m\<in>set (elems (ReconciledBillets res)).
          BilletID m = Billet.ID billet \<longrightarrow> ConciliationStrategy m = ''conta_valor_data'')"
    if gt: "fgt (amountDiffPercentage payment billet) TolerancePercentage"
  proof
    let ?s = "reference_steps ?idx ?bs init_state"
    have "\<not> lookup_bool (reconciledBilletsMap ?s) (Billet.ID billet)"
    proof
      assume "lookup_bool (reconciledBilletsMap ?s) (Billet.ID billet)"
      with reference_steps_tracked [of ?bs ?idx]
      obtain m where m: "m \<in> set (elems (reconciledBillets ?s))"
        and id: "BilletID m = Billet.ID billet"
        by (auto simp: billets_tracked_def)
      have grown: "m \<in> set (elems (reconciledBillets (final_state ?bs ?ps)))"
        unfolding final_state_def using m by (rule account_steps_keeps)
      from reference_steps_entries [of ?ps ?bs] m have
        "reference_entry ?bs ?ps m \<or> account_entry ?bs ?ps m" by simp
      then show False
      proof
        assume "reference_entry ?bs ?ps m"
        from reference_entry_excluded [OF assms(2,3,4,6) gt this] id show False by simp
      next
        assume acc: "account_entry ?bs ?ps m"
        from reference_steps_strategy [of ?idx ?bs] m
        have "ConciliationStrategy m = StrategyReferenceID" by simp
        with acc strategies_differ show False
          by (simp add: account_entry_strategy)
      qed
    qed
    with first_strategy_state [OF ret(2,3)]
    show "\<exists>s. reconcileByReferenceID (elems billets) (elems payments) init_state = Inr s
        \<and> \<not> lookup_bool (reconciledBilletsMap s) (Billet.ID billet)"
      by simp
  next
    show "\<forall>m\<in>set (elems (ReconciledBillets res)).
        BilletID m = Billet.ID billet \<longrightarrow> ConciliationStrategy m = ''conta_valor_data''"
    proof (intro ballI impI)
      fix m
      assume m: "m \<in> set (elems (ReconciledBillets res))"
        and id: "BilletID m = Billet.ID billet"
      from report_entries [OF assms(1) m] show "ConciliationStrategy m = ''conta_valor_data''"
      proof
        assume "reference_entry ?bs ?ps m"
        from reference_entry_excluded [OF assms(2,3,4,6) gt this] id
        show ?thesis by simp
      next
        assume "account_entry ?bs ?ps m"
        then show ?thesis
          by (simp add: account_entry_strategy StrategyAccountAmountDate_def)
      qed
    qed
  qed
  from identical different exceeding show ?thesis by blast
qed

theorem reference_classification_witness:
  "ReconcileBilletsWithPayments (pointers [B001]) (pointers [T100]) =
     Inr (Some \<lparr>ReconciledBillets = Some [reference_result B001 T100 StatusSuccessful],
                 NonReconciledBillets = Some []\<rparr>,
          None)
   \<and> last_with_reference [T100] ''REF001'' = Some T100
   \<and> feq (Payment.Amount T100) (Billet.Amount B001) \<and> \<not> is_inf (Billet.Amount B001)
   \<and> \<lparr>BilletID = Billet.ID B001, ReconciledBillet.BankAccount = Billet.BankAccount B001,
       TransactionID = Payment.ID T100, ConciliationStatus = ''conciliado_com_sucesso'',
       ConciliationStrategy = ''reference_id'', ReconciledBillet.ReferenceID = Some ''REF001'',
       AmountDiff = Finite 0\<rparr>
     \<in> set [reference_result B001 T100 StatusSuccessful]
   \<and> ReconcileBilletsWithPayments (pointers [B001]) (pointers [T105]) =
     Inr (Some \<lparr>ReconciledBillets = Some [reference_result B001 T105 StatusDifferentValue],
                 NonReconciledBillets = Some []\<rparr>,
          None)
   \<and> last_with_reference [T105] ''REF001'' = Some T105
   \<and> \<not> feq (amountDiff T105 B001) (Finite 0)
   \<and> feq (amountDiffPercentage T105 B001) TolerancePercentage
   \<and> \<lparr>BilletID = Billet.ID B001, ReconciledBillet.BankAccount = Billet.BankAccount B001,
       TransactionID = Payment.ID T105, ConciliationStatus = ''valor_diferente'',
       ConciliationStrategy = ''reference_id'', ReconciledBillet.ReferenceID = Some ''REF001'',
       AmountDiff = Finite 5\<rparr>
     \<in> set [reference_result B001 T105 StatusDifferentValue]
   \<and> ReconcileBilletsWithPayments (pointers [B001]) (pointers [T100, T106]) =
     Inr (Some \<lparr>ReconciledBillets = Some [account_result B001 T100 (Finite 0)],
                 NonReconciledBillets = Some []\<rparr>,
          None)
   \<and> last_with_reference [T100, T106] ''REF001'' = Some T106
   \<and> fgt (amountDiffPercentage T106 B001) TolerancePercentage
   \<and> (\<exists>s. reconcileByReferenceID (elems (pointers [B001])) (elems (pointers [T100, T106]))
             init_state = Inr s
         \<and> \<not> lookup_bool (reconciledBilletsMap s) (Billet.ID B001))
   \<and> ConciliationStrategy (account_result B001 T100 (Finite 0)) = ''conta_valor_data''"
proof -
  have ref: "Billet.ReferenceID B001 = Some ''REF001''" by (simp add: data_defs)
  have ne: "''REF001'' \<noteq> []" by simp
  have member: "B001 \<in> set (pointees (pointers [B001]))" by simp
  have dist: "distinct (map Billet.ID (pointees (pointers [B001])))" by simp
  have l1: "last_with_reference (pointees (pointers [T100])) ''REF001'' = Some T100"
    by (simp add: last_with_reference_def data_defs)
  have l2: "last_with_reference (pointees (pointers [T105])) ''REF001'' = Some T105"
    by (simp add: last_with_reference_def data_defs more_data_defs)
  have l3: "last_with_reference (pointees (pointers [T100, T106])) ''REF001'' = Some T106"
    by (simp add: last_with_reference_def data_defs more_data_defs)
  have same: "feq (Payment.Amount T100) (Billet.Amount B001)"
    and finite: "\<not> is_inf (Billet.Amount B001)"
    by (simp_all add: data_defs feq_def)
  have nonzero: "\<not> feq (amountDiff T105 B001) (Finite 0)"
    unfolding boundary_percentages by (simp add: feq_def)
  have boundary: "feq (amountDiffPercentage T105 B001) TolerancePercentage"
    unfolding boundary_percentages by (simp add: feq_def TolerancePercentage_def)
  then have within: "fle (amountDiffPercentage T105 B001) TolerancePercentage"
    by (rule feq_fle)
  have above: "fgt (amountDiffPercentage T106 B001) TolerancePercentage"
    unfolding boundary_percentages
    by (simp add: fgt_def flt_def TolerancePercentage_def)
  from reference_classification [OF identical_amounts_run member dist ref ne l1] same finite
  have first:
    "\<lparr>BilletID = Billet.ID B001, ReconciledBillet.BankAccount = Billet.BankAccount B001,
      TransactionID = Payment.ID T100, ConciliationStatus = ''conciliado_com_sucesso'',
      ConciliationStrategy = ''reference_id'', ReconciledBillet.ReferenceID = Some ''REF001'',
      AmountDiff = Finite 0\<rparr>
     \<in> set [reference_result B001 T100 StatusSuccessful]"
    by simp
  from reference_classification [OF boundary_run member dist ref ne l2] nonzero within
  have second:
    "\<lparr>BilletID = Billet.ID B001, ReconciledBillet.BankAccount = Billet.BankAccount B001,
      TransactionID = Payment.ID T105, ConciliationStatus = ''valor_diferente'',
      ConciliationStrategy = ''reference_id'', ReconciledBillet.ReferenceID = Some ''REF001'',
      AmountDiff = Finite 5\<rparr>
     \<in> set [reference_result B001 T105 StatusDifferentValue]"
    by (simp add: boundary_percentages)
  from reference_classification [OF shared_reference_last_run member dist ref ne l3] above
  have third:
    "(\<exists>s. reconcileByReferenceID (elems (pointers [B001])) (elems (pointers [T100, T106]))
             init_state = Inr s
         \<and> \<not> lookup_bool (reconciledBilletsMap s) (Billet.ID B001))
     \<and> ConciliationStrategy (account_result B001 T100 (Finite 0)) = ''conta_valor_data''"
    by simp
  from l1 l2 l3 have
    "last_with_reference [T100] ''REF001'' = Some T100"
    "last_with_reference [T105] ''REF001'' = Some T105"
    "last_with_reference [T100, T106] ''REF001'' = Some T106"
    by simp_all
  with identical_amounts_run boundary_run shared_reference_last_run
    same finite nonzero boundary above first second third
  show ?thesis by (intro conjI) (elim conjE | assumption)+
qed

section \<open>The choice of the second strategy\<close>








end
